theory Spec2Isabelle
  imports Complex_Main "HOL-Library.Multiset"
begin


section \<open>Strings\<close>

text \<open>
  JavaScript strings are modelled as \<^typ>\<open>string\<close>: one \<^typ>\<open>char\<close> per code unit, so the
  model covers texts whose code units are below 256.  The character classes below are the
  ones the regular expressions of the scripts use (none of them carries the \<open>u\<close> flag, so
  \<open>\w\<close> and \<open>[a-zA-Z0-9]\<close> are ASCII classes).
\<close>

definition isDigit :: "char \<Rightarrow> bool" where
  "isDigit c = (let n = (of_char c :: nat) in 48 \<le> n \<and> n \<le> 57)"

definition isUpper :: "char \<Rightarrow> bool" where
  "isUpper c = (let n = (of_char c :: nat) in 65 \<le> n \<and> n \<le> 90)"

definition isLower :: "char \<Rightarrow> bool" where
  "isLower c = (let n = (of_char c :: nat) in 97 \<le> n \<and> n \<le> 122)"

definition isAlnum :: "char \<Rightarrow> bool" where
  "isAlnum c = (isLower c \<or> isUpper c \<or> isDigit c)"

text \<open>
  \<open>toLowerCase\<close> on one code unit.  The capitals of ASCII and of Latin-1 are 32 below their
  small letters and have the bit of value 32 clear, so adding 32 is setting that bit.
\<close>

fun with_bit_32 :: "char \<Rightarrow> char" where
  "with_bit_32 (Char b0 b1 b2 b3 b4 b5 b6 b7) = Char b0 b1 b2 b3 b4 True b6 b7"

definition toLowerCase :: "char \<Rightarrow> char" where
  "toLowerCase c =
     (let n = (of_char c :: nat) in
      if (65 \<le> n \<and> n \<le> 90) \<or> (192 \<le> n \<and> n \<le> 222 \<and> n \<noteq> 215)
      then with_bit_32 c else c)"


section \<open>Text scanning\<close>

text \<open>\<open>\s\<close> and \<open>\w\<close> of a regular expression, on code units below 256.\<close>

definition isSpace :: "char \<Rightarrow> bool" where
  "isSpace c = (let n = (of_char c :: nat) in (9 \<le> n \<and> n \<le> 13) \<or> n = 32 \<or> n = 160)"

definition isWord :: "char \<Rightarrow> bool" where
  "isWord c = (isAlnum c \<or> c = CHR ''_'')"

definition newline :: char where
  "newline = CHR 0x0A"

subsection \<open>The citation marker \<open>/\[\^[^\]]+\]/\<close>\<close>

text \<open>The position of the first \<open>]\<close> of a string.\<close>

fun closing :: "string \<Rightarrow> nat option" where
  "closing [] = None"
| "closing (c # cs) = (if c = CHR '']'' then Some 0 else map_option Suc (closing cs))"

text \<open>
  The length of the match of the marker at the start of a string, if there is one: \<open>[^\<close>, then
  a character other than \<open>]\<close>, then everything up to the next \<open>]\<close>.
\<close>

fun citation_at :: "string \<Rightarrow> nat option" where
  "citation_at (a # b # c # rest) =
     (if a = CHR ''['' \<and> b = CHR ''^'' \<and> c \<noteq> CHR '']''
      then map_option (\<lambda>k. k + 4) (closing rest) else None)"
| "citation_at _ = None"

text \<open>\<open>regex.test(s)\<close> for the marker without the \<open>g\<close> flag: is there a match anywhere.\<close>

fun citation_test :: "string \<Rightarrow> bool" where
  "citation_test [] = False"
| "citation_test (c # cs) = (citation_at (c # cs) \<noteq> None \<or> citation_test cs)"

text \<open>
  \<open>(s.match(/.../g) || []).length\<close>: the number of matches, each search starting where the
  previous match ended.  The first argument counts the characters still covered by the last
  match.
\<close>

fun count_citations_from :: "nat \<Rightarrow> string \<Rightarrow> nat" where
  "count_citations_from skip [] = 0"
| "count_citations_from (Suc skip) (c # cs) = count_citations_from skip cs"
| "count_citations_from 0 (c # cs) =
     (case citation_at (c # cs) of
        Some len \<Rightarrow> Suc (count_citations_from (len - 1) cs)
      | None \<Rightarrow> count_citations_from 0 cs)"

definition count_citations :: "string \<Rightarrow> nat" where
  "count_citations s = count_citations_from 0 s"

subsection \<open>Splitting\<close>

text \<open>\<open>s.split('\n\n')\<close>; the first argument collects the current piece, reversed.\<close>

fun split_blank_lines :: "string \<Rightarrow> string \<Rightarrow> string list" where
  "split_blank_lines cur (a # b # rest) =
     (if a = newline \<and> b = newline then rev cur # split_blank_lines [] rest
      else split_blank_lines (a # cur) (b # rest))"
| "split_blank_lines cur [a] = [rev (a # cur)]"
| "split_blank_lines cur [] = [rev cur]"

definition split_paragraphs :: "string \<Rightarrow> string list" where
  "split_paragraphs s = split_blank_lines [] s"

text \<open>\<open>s.split(/\.\s+/)\<close>: a full stop followed by white space, all of which is dropped.\<close>

function split_full_stops :: "string \<Rightarrow> string \<Rightarrow> string list" where
  "split_full_stops cur [] = [rev cur]"
| "split_full_stops cur (c # cs) =
     (if c = CHR ''.'' \<and> cs \<noteq> [] \<and> isSpace (hd cs)
      then rev cur # split_full_stops [] (dropWhile isSpace cs)
      else split_full_stops (c # cur) cs)"
  by pat_completeness auto
termination
  by (relation "measure (\<lambda>(cur, s). length s)")
     (auto simp: le_imp_less_Suc length_dropWhile_le)

definition split_sentences :: "string \<Rightarrow> string list" where
  "split_sentences s = split_full_stops [] s"

subsection \<open>Whole words of a lexicon\<close>

text \<open>
  A regular expression \<open>\b(w1|w2|...)\b\<close> with the \<open>i\<close> flag, whose alternatives consist of
  small letters only, matches at a position exactly when a maximal run of word characters
  starts there and is, in lower case, one of the words.  The text is therefore put into lower
  case once, before the search; \<open>\w\<close> does not tell a capital from its small letter.

  \<open>word_at ws s\<close> is the length of the match at the start of the lower-case text \<open>s\<close>: the
  first word of \<open>ws\<close> that is a prefix of \<open>s\<close> and is not followed by a word character.
\<close>

fun word_fits :: "string \<Rightarrow> string \<Rightarrow> bool" where
  "word_fits [] [] = True"
| "word_fits [] (c # cs) = (\<not> isWord c)"
| "word_fits (w # ws) [] = False"
| "word_fits (w # ws) (c # cs) = (if c = w then word_fits ws cs else False)"

definition word_at :: "string list \<Rightarrow> string \<Rightarrow> nat option" where
  "word_at ws s = map_option length (find (\<lambda>w. word_fits w s) ws)"

text \<open>
  The search for the first match at or after a position.  \<open>m\<close> gives the length of the
  match at the start of a string (\<open>word_at ws\<close> for a lexicon \<open>ws\<close>), \<open>prev\<close> tells whether
  the character before is a word character (then \<open>\b\<close> fails here), \<open>pos\<close> is the position of
  the rest \<open>s\<close> in the whole string.  The result is the index just after the match.
\<close>

fun search_word :: "(string \<Rightarrow> nat option) \<Rightarrow> bool \<Rightarrow> nat \<Rightarrow> string \<Rightarrow> nat option" where
  "search_word m prev pos [] = None"
| "search_word m prev pos (c # cs) =
     (case (if prev then None else m (c # cs)) of
        Some len \<Rightarrow> Some (pos + len)
      | None \<Rightarrow> search_word m (isWord c) (Suc pos) cs)"

text \<open>\<open>regex.test(s)\<close> without the \<open>g\<close> flag.\<close>

definition contains_word :: "(string \<Rightarrow> nat option) \<Rightarrow> string \<Rightarrow> bool" where
  "contains_word m s = (search_word m False 0 (map toLowerCase s) \<noteq> None)"

text \<open>
  \<open>regex.test(s)\<close> with the \<open>g\<close> flag: the search starts at the \<open>lastIndex\<close> that the previous
  call on this regular expression object left behind, whatever string that call was about; a
  match sets \<open>lastIndex\<close> to its end, a failure resets it to 0.
\<close>

definition test_global :: "(string \<Rightarrow> nat option) \<Rightarrow> nat \<Rightarrow> string \<Rightarrow> bool \<times> nat" where
  "test_global m lastIndex s =
     (if lastIndex > length s then (False, 0)
      else (case search_word m (lastIndex > 0 \<and> isWord (s ! (lastIndex - 1))) lastIndex
                   (drop lastIndex (map toLowerCase s)) of
              None \<Rightarrow> (False, 0)
            | Some e \<Rightarrow> (True, e)))"

text \<open>\<open>xs.indexOf(x)\<close> for an element that occurs, and \<open>xs[i]\<close> (\<open>undefined\<close> out of range).\<close>

definition indexOf :: "'a list \<Rightarrow> 'a \<Rightarrow> nat" where
  "indexOf xs x = length (takeWhile (\<lambda>y. y \<noteq> x) xs)"

definition at_index :: "'a list \<Rightarrow> nat \<Rightarrow> 'a option" where
  "at_index xs i = (if i < length xs then Some (xs ! i) else None)"

section \<open>JavaScript numbers\<close>

text \<open>
  A JavaScript number is modelled as a real number or one of the special IEEE values; rounding
  is not modelled.  \<open>Fin 0\<close> is the positive zero and \<open>NegZero\<close> the negative one, which
  \<open>0 * -1\<close> produces and which decides the sign of a quotient.
\<close>

datatype jsnum = Fin real | NegZero | PosInf | NegInf | NaN

fun is_neg :: "jsnum \<Rightarrow> bool" where
  "is_neg (Fin a) = (a < 0)"
| "is_neg NegZero = True"
| "is_neg PosInf = False"
| "is_neg NegInf = True"
| "is_neg NaN = False"

fun is_zero :: "jsnum \<Rightarrow> bool" where
  "is_zero (Fin a) = (a = 0)"
| "is_zero NegZero = True"
| "is_zero _ = False"

fun is_inf :: "jsnum \<Rightarrow> bool" where
  "is_inf PosInf = True"
| "is_inf NegInf = True"
| "is_inf _ = False"

fun is_finite :: "jsnum \<Rightarrow> bool" where
  "is_finite (Fin a) = True"
| "is_finite NegZero = True"
| "is_finite _ = False"

fun val :: "jsnum \<Rightarrow> real" where
  "val (Fin a) = a"
| "val _ = 0"

definition js_mul :: "jsnum \<Rightarrow> jsnum \<Rightarrow> jsnum" where
  "js_mul x y =
     (if x = NaN \<or> y = NaN then NaN
      else if (is_zero x \<and> is_inf y) \<or> (is_inf x \<and> is_zero y) then NaN
      else if is_inf x \<or> is_inf y then (if is_neg x \<noteq> is_neg y then NegInf else PosInf)
      else if is_zero x \<or> is_zero y then (if is_neg x \<noteq> is_neg y then NegZero else Fin 0)
      else Fin (val x * val y))"

definition js_div :: "jsnum \<Rightarrow> jsnum \<Rightarrow> jsnum" where
  "js_div x y =
     (if x = NaN \<or> y = NaN then NaN
      else if (is_inf x \<and> is_inf y) \<or> (is_zero x \<and> is_zero y) then NaN
      else if is_inf x \<or> is_zero y then (if is_neg x \<noteq> is_neg y then NegInf else PosInf)
      else if is_zero x \<or> is_inf y then (if is_neg x \<noteq> is_neg y then NegZero else Fin 0)
      else Fin (val x / val y))"

text \<open>The \<open>length\<close> of an array, and \<open>length - 1\<close> (which is \<open>-1\<close> for the empty array).\<close>

definition js_length :: "'a list \<Rightarrow> jsnum" where
  "js_length xs = Fin (real (length xs))"

definition js_length_minus_1 :: "'a list \<Rightarrow> jsnum" where
  "js_length_minus_1 xs = Fin (real (length xs) - 1)"

section \<open>attribution-map.js: node identifiers\<close>

text \<open>
  \<^verbatim>\<open>function nodeId(type, name) { return `${type}:${name.replace(/[^a-zA-Z0-9]/g, '_')}`; }\<close>
\<close>

definition sanitize :: "char \<Rightarrow> char" where
  "sanitize c = (if isAlnum c then c else CHR ''_'')"

definition nodeId :: "string \<Rightarrow> string \<Rightarrow> string" where
  "nodeId type name = type @ '':'' @ map sanitize name"

section \<open>attribution-map.js: the graph\<close>

text \<open>
  A node object.  Contributor nodes carry \<open>name, email, github, avatarUrl, contributions\<close>
  (and, once the metrics ran, \<open>contributionBreakdown\<close>); content nodes carry \<open>path, title\<close>.
  A field the object does not have is \<open>None\<close>.  The field \<open>type\<close> is \<open>n_type\<close>, \<open>id\<close> is
  \<open>n_id\<close>.
\<close>

record node =
  n_id :: string
  n_name :: "string option"
  n_email :: "string option"
  n_github :: "string option"
  n_avatarUrl :: "string option"
  n_path :: "string option"
  n_title :: "string option"
  n_type :: string
  n_contributions :: "nat option"
  n_contributionBreakdown :: "(string \<times> nat) list option"

datatype link_metadata =
    CommitMeta string string nat nat
  | IssueMeta string string "string list" string
  | PullMeta string string bool string
  | ReviewMeta nat string string
  | CommentMeta nat string

record link =
  l_source :: string
  l_target :: string
  l_type :: string
  l_weight :: real
  l_timestamp :: "string option"
  l_metadata :: link_metadata

record metrics =
  contributorCount :: nat
  totalContributions :: nat
  contentNodes :: nat
  density :: jsnum
  lastUpdated :: string

record graph =
  nodes :: "node list"
  links :: "link list"
  g_metrics :: "metrics option"

text \<open>The argument objects of \<open>addContributorNode\<close> and \<open>addContentNode\<close>.\<close>

record contributor =
  c_name :: string
  c_email :: "string option"
  c_github :: "string option"
  c_avatarUrl :: "string option"

record content =
  ct_path :: string
  ct_title :: "string option"
  ct_type :: string

text \<open>
  \<open>contributor.name || contributor.github\<close>: the empty string is falsy.  \<open>nodeId\<close> calls
  \<open>name.replace\<close>, which throws a TypeError when both are missing; that is \<open>None\<close> here, and
  the graph is untouched by the failed call.
\<close>

definition name_or_github :: "contributor \<Rightarrow> string option" where
  "name_or_github c = (if c_name c \<noteq> [] then Some (c_name c) else c_github c)"

definition has_node :: "graph \<Rightarrow> string \<Rightarrow> bool" where
  "has_node g i = list_ex (\<lambda>n. n_id n = i) (nodes g)"

definition addContributorNode :: "graph \<Rightarrow> contributor \<Rightarrow> graph option" where
  "addContributorNode g c =
     (case name_or_github c of
        None \<Rightarrow> None
      | Some nm \<Rightarrow>
          (let i = nodeId ''contributor'' nm in
           if \<not> has_node g i
           then Some (g\<lparr>nodes := nodes g @
                  [\<lparr>n_id = i, n_name = Some (c_name c), n_email = c_email c,
                    n_github = c_github c, n_avatarUrl = c_avatarUrl c, n_path = None,
                    n_title = None, n_type = ''contributor'', n_contributions = Some 0,
                    n_contributionBreakdown = None\<rparr>]\<rparr>)
           else Some g))"

definition addContentNode :: "graph \<Rightarrow> content \<Rightarrow> graph" where
  "addContentNode g c =
     (let i = nodeId ''content'' (ct_path c) in
      if \<not> has_node g i
      then g\<lparr>nodes := nodes g @
             [\<lparr>n_id = i, n_name = None, n_email = None, n_github = None, n_avatarUrl = None,
               n_path = Some (ct_path c), n_title = ct_title c, n_type = ct_type c,
               n_contributions = None, n_contributionBreakdown = None\<rparr>]\<rparr>
      else g)"

definition same_link :: "link \<Rightarrow> link \<Rightarrow> bool" where
  "same_link l k =
     (l_source l = l_source k \<and> l_target l = l_target k \<and> l_type l = l_type k \<and>
      l_timestamp l = l_timestamp k)"

definition has_link :: "graph \<Rightarrow> link \<Rightarrow> bool" where
  "has_link g k = list_ex (\<lambda>l. same_link l k) (links g)"

definition addLink :: "graph \<Rightarrow> link \<Rightarrow> graph" where
  "addLink g k = (if \<not> has_link g k then g\<lparr>links := links g @ [k]\<rparr> else g)"

section \<open>attribution-map.js: the events\<close>

text \<open>
  What the four external calls return.  A call that fails (the platform is unreachable, git
  exits with an error) throws; the value \<open>Failed\<close> stands for that.
\<close>

datatype 'a fetch = Failed | Fetched 'a

record file_delta =
  f_additions :: nat
  f_deletions :: nat
  f_path :: string

record commit =
  cm_hash :: string
  cm_author :: string
  cm_email :: string
  cm_timestamp :: int
  cm_message :: string
  cm_files :: "file_delta list"

record comment =
  co_id :: nat
  co_login :: string
  co_avatar_url :: string
  co_created_at :: string
  co_html_url :: string

record issue =
  i_number :: nat
  i_login :: string
  i_avatar_url :: string
  i_title :: string
  i_state :: string
  i_labels :: "string list"
  i_html_url :: string
  i_created_at :: string
  i_pull_request :: bool
  i_comments :: "comment list fetch"

record review =
  r_id :: nat
  r_login :: string
  r_avatar_url :: string
  r_state :: string
  r_html_url :: string
  r_submitted_at :: "string option"

record pull =
  p_number :: nat
  p_login :: string
  p_avatar_url :: string
  p_title :: string
  p_state :: string
  p_merged :: bool
  p_html_url :: string
  p_created_at :: string
  p_reviews :: "review list fetch"
  p_comments :: "comment list fetch"

record events =
  ev_log :: "commit list fetch"
  ev_issues :: "issue list fetch"
  ev_pulls :: "pull list fetch"

subsection \<open>Helpers\<close>

text \<open>\<open>path.split('.').pop()\<close>: what follows the last dot, the whole path when it has none.\<close>

definition last_segment :: "string \<Rightarrow> string" where
  "last_segment p = rev (takeWhile (\<lambda>c. c \<noteq> CHR ''.'') (rev p))"

definition getFileType :: "string \<Rightarrow> string" where
  "getFileType p =
     (let ext = map toLowerCase (last_segment p) in
      if ext \<in> set [''md'', ''markdown''] then ''markdown''
      else if ext \<in> set [''js'', ''jsx'', ''ts'', ''tsx''] then ''javascript''
      else if ext \<in> set [''py''] then ''python''
      else if ext \<in> set [''r''] then ''r''
      else if ext \<in> set [''ipynb''] then ''notebook''
      else if ext \<in> set [''json'', ''yaml'', ''yml''] then ''data''
      else if ext \<in> set [''png'', ''jpg'', ''jpeg'', ''gif'', ''svg''] then ''image''
      else if ext \<in> set [''css'', ''scss'', ''less''] then ''style''
      else if ext \<in> set [''html'', ''htm''] then ''html''
      else ''other'')"

text \<open>The decimal digits of a number, as a template literal prints \<open>issue.number\<close>.\<close>

fun string_of_nat :: "nat \<Rightarrow> string" where
  "string_of_nat n =
     (if n < 10 then [char_of (48 + n)]
      else string_of_nat (n div 10) @ [char_of (48 + n mod 10)])"

declare string_of_nat.simps [simp del]

subsection \<open>The mutations a mapping pass performs\<close>

text \<open>
  Each of \<open>mapCodeContributions\<close>, \<open>mapIssueContributions\<close> and \<open>mapPRContributions\<close> is
  a loop of calls of \<open>addContributorNode\<close>, \<open>addContentNode\<close> and \<open>addLink\<close> on the one
  graph object, inside a \<open>try\<close> whose \<open>catch\<close> only logs.  The calls a pass makes are written
  down as a list, in the order of the loop; \<open>Throw\<close> marks the place where an expression
  of the loop body throws.  \<open>tryOps\<close> runs the list up to the first exception and returns
  the graph as the exception left it.
\<close>

datatype op = AddContributorNode contributor | AddContentNode content | AddLink link | Throw

fun tryOps :: "graph \<Rightarrow> op list \<Rightarrow> graph" where
  "tryOps g [] = g"
| "tryOps g (AddContributorNode c # ops) =
     (case addContributorNode g c of None \<Rightarrow> g | Some g' \<Rightarrow> tryOps g' ops)"
| "tryOps g (AddContentNode c # ops) = tryOps (addContentNode g c) ops"
| "tryOps g (AddLink k # ops) = tryOps (addLink g k) ops"
| "tryOps g (Throw # ops) = g"

text \<open>
  The body of the inner loop of \<open>mapCodeContributions\<close>, for one file of a commit.
  \<open>toISOString\<close> is the library's \<open>new Date(ms).toISOString()\<close>, which throws a RangeError
  on a time value that is no date (\<open>None\<close>).
\<close>

definition fileOps :: "(int \<Rightarrow> string option) \<Rightarrow> commit \<Rightarrow> file_delta \<Rightarrow> op list" where
  "fileOps toISOString c f =
     AddContentNode \<lparr>ct_path = f_path f, ct_title = None, ct_type = getFileType (f_path f)\<rparr> #
     (case toISOString (cm_timestamp c * 1000) of
        None \<Rightarrow> [Throw]
      | Some t \<Rightarrow>
          [AddLink \<lparr>l_source = nodeId ''contributor'' (cm_author c),
                    l_target = nodeId ''content'' (f_path f),
                    l_type = ''code'',
                    l_weight = real (f_additions f + f_deletions f),
                    l_timestamp = Some t,
                    l_metadata = CommitMeta (cm_hash c) (cm_message c)
                                   (f_additions f) (f_deletions f)\<rparr>])"

definition commitOps :: "(int \<Rightarrow> string option) \<Rightarrow> commit \<Rightarrow> op list" where
  "commitOps toISOString c =
     AddContributorNode \<lparr>c_name = cm_author c, c_email = Some (cm_email c), c_github = None,
                         c_avatarUrl = None\<rparr> #
     concat (map (fileOps toISOString c) (cm_files c))"

definition mapCodeContributions ::
  "(int \<Rightarrow> string option) \<Rightarrow> graph \<Rightarrow> commit list fetch \<Rightarrow> graph" where
  "mapCodeContributions toISOString g gitlog =
     (case gitlog of
        Failed \<Rightarrow> g
      | Fetched commits \<Rightarrow> tryOps g (concat (map (commitOps toISOString) commits)))"

definition commentOps :: "string \<Rightarrow> comment \<Rightarrow> op list" where
  "commentOps target_path c =
     [AddContributorNode \<lparr>c_name = co_login c, c_email = None, c_github = Some (co_login c),
                          c_avatarUrl = Some (co_avatar_url c)\<rparr>,
      AddLink \<lparr>l_source = nodeId ''contributor'' (co_login c),
               l_target = nodeId ''content'' target_path,
               l_type = ''comment'',
               l_weight = 0.5,
               l_timestamp = Some (co_created_at c),
               l_metadata = CommentMeta (co_id c) (co_html_url c)\<rparr>]"

definition commentsOps :: "string \<Rightarrow> comment list fetch \<Rightarrow> op list" where
  "commentsOps target_path cs =
     (case cs of Failed \<Rightarrow> [Throw] | Fetched xs \<Rightarrow> concat (map (commentOps target_path) xs))"

definition issueOps :: "issue \<Rightarrow> op list" where
  "issueOps i =
     (if i_pull_request i then []
      else
        (let p = ''issues/'' @ string_of_nat (i_number i) in
         [AddContributorNode \<lparr>c_name = i_login i, c_email = None, c_github = Some (i_login i),
                              c_avatarUrl = Some (i_avatar_url i)\<rparr>,
          AddContentNode \<lparr>ct_path = p, ct_title = Some (i_title i), ct_type = ''issue''\<rparr>,
          AddLink \<lparr>l_source = nodeId ''contributor'' (i_login i),
                   l_target = nodeId ''content'' p,
                   l_type = ''issue'',
                   l_weight = 1,
                   l_timestamp = Some (i_created_at i),
                   l_metadata = IssueMeta (i_title i) (i_state i) (i_labels i) (i_html_url i)\<rparr>]
         @ commentsOps p (i_comments i)))"

definition mapIssueContributions :: "graph \<Rightarrow> issue list fetch \<Rightarrow> graph" where
  "mapIssueContributions g issues =
     (case issues of Failed \<Rightarrow> g | Fetched xs \<Rightarrow> tryOps g (concat (map issueOps xs)))"

definition reviewOps :: "string \<Rightarrow> review \<Rightarrow> op list" where
  "reviewOps target_path r =
     [AddContributorNode \<lparr>c_name = r_login r, c_email = None, c_github = Some (r_login r),
                          c_avatarUrl = Some (r_avatar_url r)\<rparr>,
      AddLink \<lparr>l_source = nodeId ''contributor'' (r_login r),
               l_target = nodeId ''content'' target_path,
               l_type = ''review'',
               l_weight = 0.8,
               l_timestamp = r_submitted_at r,
               l_metadata = ReviewMeta (r_id r) (r_state r) (r_html_url r)\<rparr>]"

definition reviewsOps :: "string \<Rightarrow> review list fetch \<Rightarrow> op list" where
  "reviewsOps target_path rs =
     (case rs of Failed \<Rightarrow> [Throw] | Fetched xs \<Rightarrow> concat (map (reviewOps target_path) xs))"

definition pullOps :: "pull \<Rightarrow> op list" where
  "pullOps pr =
     (let p = ''pulls/'' @ string_of_nat (p_number pr) in
      [AddContributorNode \<lparr>c_name = p_login pr, c_email = None, c_github = Some (p_login pr),
                           c_avatarUrl = Some (p_avatar_url pr)\<rparr>,
       AddContentNode \<lparr>ct_path = p, ct_title = Some (p_title pr), ct_type = ''pull_request''\<rparr>,
       AddLink \<lparr>l_source = nodeId ''contributor'' (p_login pr),
                l_target = nodeId ''content'' p,
                l_type = ''pull_request'',
                l_weight = 1,
                l_timestamp = Some (p_created_at pr),
                l_metadata = PullMeta (p_title pr) (p_state pr) (p_merged pr) (p_html_url pr)\<rparr>]
      @ reviewsOps p (p_reviews pr) @ commentsOps p (p_comments pr))"

definition mapPRContributions :: "graph \<Rightarrow> pull list fetch \<Rightarrow> graph" where
  "mapPRContributions g prs =
     (case prs of Failed \<Rightarrow> g | Fetched xs \<Rightarrow> tryOps g (concat (map pullOps xs)))"

text \<open>\<open>mapDiscussionContributions\<close> is a placeholder that only logs.\<close>

definition mapDiscussionContributions :: "graph \<Rightarrow> graph" where
  "mapDiscussionContributions g = g"

subsection \<open>Metrics\<close>

text \<open>
  \<open>typeBreakdown[link.type] = (typeBreakdown[link.type] || 0) + 1\<close> on an object whose keys
  keep their insertion order.
\<close>

fun bump :: "string \<Rightarrow> (string \<times> nat) list \<Rightarrow> (string \<times> nat) list" where
  "bump k [] = [(k, 1)]"
| "bump k ((k', v) # r) = (if k = k' then (k', v + 1) # r else (k', v) # bump k r)"

definition typeBreakdown :: "link list \<Rightarrow> (string \<times> nat) list" where
  "typeBreakdown ls = foldl (\<lambda>m l. bump (l_type l) m) [] ls"

definition count_contributions :: "link list \<Rightarrow> node \<Rightarrow> node" where
  "count_contributions ls n =
     (if n_type n = ''contributor''
      then (let contributions = filter (\<lambda>l. l_source l = n_id n) ls in
            n\<lparr>n_contributions := Some (length contributions),
              n_contributionBreakdown := Some (typeBreakdown contributions)\<rparr>)
      else n)"

text \<open>\<open>graph.links.length / (graph.nodes.length * (graph.nodes.length - 1) / 2)\<close>\<close>

definition graph_density :: "graph \<Rightarrow> jsnum" where
  "graph_density g =
     js_div (js_length (links g))
       (js_div (js_mul (js_length (nodes g)) (js_length_minus_1 (nodes g))) (Fin 2))"

definition calculateAttributionMetrics :: "string \<Rightarrow> graph \<Rightarrow> graph" where
  "calculateAttributionMetrics now g =
     g\<lparr>nodes := map (count_contributions (links g)) (nodes g),
       g_metrics := Some
         \<lparr>contributorCount = length (filter (\<lambda>n. n_type n = ''contributor'') (nodes g)),
          totalContributions = length (links g),
          contentNodes = length (filter (\<lambda>n. n_type n \<noteq> ''contributor'') (nodes g)),
          density = graph_density g,
          lastUpdated = now\<rparr>\<rparr>"

text \<open>
  One run of \<open>generateAttributionMap\<close> on the graph loaded from the output file (or the
  empty graph of \<open>initializeAttributionGraph\<close>); the result is what the run writes back.
  \<open>now\<close> is the clock reading of the run.
\<close>

definition initial_graph :: graph where
  "initial_graph = \<lparr>nodes = [], links = [], g_metrics = None\<rparr>"

definition generateAttributionMap ::
  "(int \<Rightarrow> string option) \<Rightarrow> string \<Rightarrow> graph \<Rightarrow> events \<Rightarrow> graph" where
  "generateAttributionMap toISOString now g ev =
     calculateAttributionMetrics now
       (mapDiscussionContributions
         (mapPRContributions
           (mapIssueContributions
             (mapCodeContributions toISOString g (ev_log ev))
             (ev_issues ev))
           (ev_pulls ev)))"

subsection \<open>Auxiliary notions for the proofs\<close>

text \<open>
  \<open>covers h g\<close>: every node id and every link key \<open>(source, target, type, timestamp)\<close> of
  \<open>g\<close> occurs in \<open>h\<close>.
\<close>

definition covers :: "graph \<Rightarrow> graph \<Rightarrow> bool" where
  "covers h g = ((\<forall>i. has_node g i \<longrightarrow> has_node h i) \<and> (\<forall>k. has_link g k \<longrightarrow> has_link h k))"

text \<open>A graph is well formed when both ends of every link are ids of its nodes.\<close>

definition wf_graph :: "graph \<Rightarrow> bool" where
  "wf_graph g = list_all (\<lambda>l. has_node g (l_source l) \<and> has_node g (l_target l)) (links g)"

text \<open>
  \<open>linked_ok S ops\<close>: in the list of calls \<open>ops\<close>, as far as it is executed, every link
  joins ids that are in \<open>S\<close> or were the subject of an earlier node call.
\<close>

fun linked_ok :: "string set \<Rightarrow> op list \<Rightarrow> bool" where
  "linked_ok S [] = True"
| "linked_ok S (AddContributorNode c # ops) =
     (case name_or_github c of
        None \<Rightarrow> True
      | Some nm \<Rightarrow> linked_ok (insert (nodeId ''contributor'' nm) S) ops)"
| "linked_ok S (AddContentNode c # ops) = linked_ok (insert (nodeId ''content'' (ct_path c)) S) ops"
| "linked_ok S (AddLink k # ops) = (l_source k \<in> S \<and> l_target k \<in> S \<and> linked_ok S ops)"
| "linked_ok S (Throw # ops) = True"

text \<open>A graph with a single node, for the example of the density.\<close>

definition one_node_graph :: graph where
  "one_node_graph = addContentNode initial_graph
     \<lparr>ct_path = ''index.md'', ct_title = None, ct_type = ''markdown''\<rparr>"

text \<open>
  Further small graphs for the density: a link between a contributor and a file, alone in a
  graph without nodes, added to the graph with one node, and in the graph that the three calls
  of a commit build.
\<close>

definition example_link :: link where
  "example_link =
     \<lparr>l_source = nodeId ''contributor'' ''Ann'', l_target = nodeId ''content'' ''index.md'',
      l_type = ''code'', l_weight = 3, l_timestamp = Some ''2024-01-01T00:00:00.000Z'',
      l_metadata = CommitMeta ''h1'' ''one'' 2 1\<rparr>"

definition dangling_link_graph :: graph where
  "dangling_link_graph = addLink initial_graph example_link"

definition one_node_linked_graph :: graph where
  "one_node_linked_graph = addLink one_node_graph example_link"

definition two_node_graph :: graph where
  "two_node_graph =
     tryOps initial_graph
       [AddContributorNode \<lparr>c_name = ''Ann'', c_email = Some ''a@x'', c_github = None,
                            c_avatarUrl = None\<rparr>,
        AddContentNode \<lparr>ct_path = ''index.md'', ct_title = None, ct_type = ''markdown''\<rparr>,
        AddLink example_link]"

section \<open>residue-analysis.js: the catalog\<close>

text \<open>
  A residue instance as the three detection channels build it; \<open>location\<close> is the pair of
  the file and the (optional) line.
\<close>

record residue_instance =
  ri_id :: string
  ri_classification :: string
  ri_description :: string
  ri_section :: string
  ri_failureMode :: string
  ri_recursiveDepth :: string
  ri_valence :: string
  ri_detected :: string
  ri_reporter :: string
  ri_source :: string
  ri_status :: string
  ri_location :: "string \<times> nat option"

record catalog =
  instances :: "residue_instance list"
  meta_count :: nat

text \<open>
  \<^verbatim>\<open>const exists = catalog.instances.some(existing =>
    existing.description === instance.description && existing.section === instance.section);
  if (!exists) { catalog.instances.push(instance); ... }\<close>
\<close>

definition addResidueInstance :: "catalog \<Rightarrow> residue_instance \<Rightarrow> catalog" where
  "addResidueInstance catalog instance =
     (let exists = list_ex (\<lambda>existing.
            ri_description existing = ri_description instance \<and>
            ri_section existing = ri_section instance) (instances catalog)
      in if \<not> exists then catalog\<lparr>instances := instances catalog @ [instance]\<rparr>
         else catalog)"

text \<open>
  A run of the classifier offers its instances to the one catalog, one call of
  \<open>addResidueInstance\<close> after the other.
\<close>

definition addResidueInstances :: "catalog \<Rightarrow> residue_instance list \<Rightarrow> catalog" where
  "addResidueInstances catalog xs = foldl addResidueInstance catalog xs"

text \<open>The pair on which the catalog deduplicates.\<close>

definition residue_key :: "residue_instance \<Rightarrow> string \<times> string" where
  "residue_key i = (ri_description i, ri_section i)"

definition example_residue :: "string \<Rightarrow> residue_instance" where
  "example_residue i =
     \<lparr>ri_id = i, ri_classification = ''Token Hesitation'', ri_description = ''perhaps'',
      ri_section = ''index.md'', ri_failureMode = ''Explicit uncertainty'',
      ri_recursiveDepth = ''Surface (linguistic/presentational)'',
      ri_valence = ''Neutral (neither helps nor hinders)'', ri_detected = ''2024-01-01'',
      ri_reporter = ''system'', ri_source = ''detection'', ri_status = ''pending'',
      ri_location = (''content/index.md'', Some 1)\<rparr>"

section \<open>coherence-report.js: the history\<close>

text \<open>
  A history entry.  \<open>e_timestamp\<close> is the time value of \<open>new Date(entry.timestamp)\<close> in
  milliseconds: the entries are written by \<open>getCurrentCoherence\<close> with
  \<open>new Date().toISOString()\<close>, so every timestamp is a date.
\<close>

record coherence_entry =
  e_timestamp :: int
  e_overallScore :: real
  e_components :: "(string \<times> real) list"
  e_details :: "(string \<times> string list) list"

record history =
  entries :: "coherence_entry list"
  h_lastUpdated :: "string option"
  h_entryCount :: "nat option"

text \<open>
  \<open>Array.prototype.sort\<close> with a comparison function: a stable sort that puts \<open>a\<close> after
  \<open>b\<close> when \<open>cmp a b > 0\<close>.
\<close>

fun js_insert :: "('a \<Rightarrow> 'a \<Rightarrow> int) \<Rightarrow> 'a \<Rightarrow> 'a list \<Rightarrow> 'a list" where
  "js_insert cmp x [] = [x]"
| "js_insert cmp x (y # ys) = (if cmp x y \<le> 0 then x # y # ys else y # js_insert cmp x ys)"

definition js_sort :: "('a \<Rightarrow> 'a \<Rightarrow> int) \<Rightarrow> 'a list \<Rightarrow> 'a list" where
  "js_sort cmp xs = foldr (js_insert cmp) xs []"

text \<open>
  \<^verbatim>\<open>history.entries.push(currentCoherence);
  history.entries.sort((a, b) => new Date(a.timestamp) - new Date(b.timestamp));
  history.metadata.lastUpdated = new Date().toISOString();
  history.metadata.entryCount = history.entries.length;\<close>
\<close>

definition addToCoherenceHistory :: "string \<Rightarrow> history \<Rightarrow> coherence_entry \<Rightarrow> history" where
  "addToCoherenceHistory now h currentCoherence =
     (let es = js_sort (\<lambda>a b. e_timestamp a - e_timestamp b) (entries h @ [currentCoherence])
      in h\<lparr>entries := es, h_lastUpdated := Some now, h_entryCount := Some (length es)\<rparr>)"

text \<open>The two filters by which \<open>generatePeriodReport\<close> partitions the entries.\<close>

definition periodEntries :: "int \<Rightarrow> history \<Rightarrow> coherence_entry list" where
  "periodEntries periodStart h = filter (\<lambda>entry. e_timestamp entry \<ge> periodStart) (entries h)"

definition previousEntries :: "int \<Rightarrow> history \<Rightarrow> coherence_entry list" where
  "previousEntries periodStart h = filter (\<lambda>entry. e_timestamp entry < periodStart) (entries h)"

section \<open>coherence-check.js: signal alignment\<close>

text \<open>
  An article as \<open>parseArticleContents\<close> returns it: the front matter and the markdown body.
  A front-matter field is a scalar or an array; a field that is absent is \<open>None\<close>.
\<close>

datatype yaml = Scalar string | Array "string list"

record metadata =
  m_title :: "string option"
  m_scope :: "yaml option"
  m_tags :: "yaml option"
  m_keywords :: "yaml option"

record article =
  a_file :: string
  a_metadata :: metadata
  a_content :: string

subsection \<open>\<open>analyzeArticleCitations\<close>\<close>

record citation_analysis =
  ca_citations :: nat
  ca_paragraphs :: nat
  ca_density :: real
  ca_score :: real

definition analyzeArticleCitations :: "article list \<Rightarrow> citation_analysis" where
  "analyzeArticleCitations articles =
     (let totalCitations =
            foldl (\<lambda>count article. count + count_citations (a_content article)) 0 articles;
          totalParagraphs =
            foldl (\<lambda>count article. count + length (split_paragraphs (a_content article)))
              0 articles;
          density = (if totalParagraphs > 0 then real totalCitations / real totalParagraphs
                     else 0);
          score = min 1 (density / 0.5)
      in \<lparr>ca_citations = totalCitations, ca_paragraphs = totalParagraphs,
          ca_density = density, ca_score = max 0 (min 1 score)\<rparr>)"

subsection \<open>\<open>findUnsupportedClaims\<close>\<close>

text \<open>
  The alternatives of \<open>claimRegex\<close>, each with its optional endings written out, in the order in
  which the regular expression tries them:
  \<^verbatim>\<open>'show[s]?', 'demonstrate[s]?', 'prove[s]?', 'evidence', 'find(ing)?[s]?', 'suggest[s]?',
  'indicate[s]?', 'reveal[s]?', 'establish(es|ed)?', 'confirm[s]?', 'conclude[s]?'\<close>
\<close>

definition claimIndicators :: "string list" where
  "claimIndicators =
     [''shows'', ''show'', ''demonstrates'', ''demonstrate'', ''proves'', ''prove'', ''evidence'',
      ''findings'', ''finding'', ''finds'', ''find'', ''suggests'', ''suggest'',
      ''indicates'', ''indicate'', ''reveals'', ''reveal'',
      ''establishes'', ''established'', ''establish'', ''confirms'', ''confirm'',
      ''concludes'', ''conclude'']"

text \<open>The length of the match of \<open>claimRegex\<close> at the start of a string.\<close>

definition claim_at :: "string \<Rightarrow> nat option" where
  "claim_at s = word_at claimIndicators s"

text \<open>
  The state of the two nested \<open>forEach\<close> loops: the counters, and the \<open>lastIndex\<close> of the one
  \<open>claimRegex\<close> object, which is created with the flags \<open>'ig'\<close> before the loops.
\<close>

record claim_state =
  lastIndex :: nat
  totalClaims :: nat
  unsupportedCount :: nat

definition claim_step :: "string list \<Rightarrow> claim_state \<Rightarrow> string \<Rightarrow> claim_state" where
  "claim_step sentences st sentence =
     (case test_global claim_at (lastIndex st) sentence of
        (False, li) \<Rightarrow> st\<lparr>lastIndex := li\<rparr>
      | (True, li) \<Rightarrow>
          (let hasCitation =
                 (citation_test sentence \<or>
                  (case at_index sentences (indexOf sentences sentence + 1) of
                     None \<Rightarrow> False
                   | Some next \<Rightarrow> next \<noteq> [] \<and> citation_test next))
           in st\<lparr>lastIndex := li, totalClaims := totalClaims st + 1,
                 unsupportedCount :=
                   (if \<not> hasCitation then unsupportedCount st + 1 else unsupportedCount st)\<rparr>))"

definition claim_article :: "claim_state \<Rightarrow> article \<Rightarrow> claim_state" where
  "claim_article st article =
     (let sentences = split_sentences (a_content article)
      in foldl (claim_step sentences) st sentences)"

record claims_analysis =
  cl_totalClaims :: nat
  cl_unsupportedClaims :: nat
  cl_unsupportedRate :: real
  cl_score :: real

definition claims_result :: "nat \<Rightarrow> nat \<Rightarrow> claims_analysis" where
  "claims_result claims unsupported =
     (let unsupportedRate = (if claims > 0 then real unsupported / real claims else 0);
          score = 1 - min 1 (unsupportedRate * 2)
      in \<lparr>cl_totalClaims = claims, cl_unsupportedClaims = unsupported,
          cl_unsupportedRate = unsupportedRate, cl_score = max 0 (min 1 score)\<rparr>)"

definition findUnsupportedClaims :: "article list \<Rightarrow> claims_analysis" where
  "findUnsupportedClaims articles =
     (let st = foldl claim_article
                 \<lparr>lastIndex = 0, totalClaims = 0, unsupportedCount = 0\<rparr> articles
      in claims_result (totalClaims st) (unsupportedCount st))"

text \<open>
  What the documentation of \<open>findUnsupportedClaims\<close> describes, for comparison: a sentence is
  a claim when it contains a word of the lexicon; a claim is supported when the sentence or
  the sentence that follows it in the article contains a citation marker.
\<close>

fun described_unsupported :: "string list \<Rightarrow> nat \<times> nat" where
  "described_unsupported [] = (0, 0)"
| "described_unsupported (s # rest) =
     (let (claims, unsupported) = described_unsupported rest;
          supported = (citation_test s \<or> (case rest of [] \<Rightarrow> False | n # _ \<Rightarrow> citation_test n))
      in if contains_word claim_at s
         then (claims + 1, if supported then unsupported else unsupported + 1)
         else (claims, unsupported))"

definition described_findUnsupportedClaims :: "article list \<Rightarrow> claims_analysis" where
  "described_findUnsupportedClaims articles =
     (let counts = map (\<lambda>a. described_unsupported (split_sentences (a_content a))) articles
      in claims_result (sum_list (map fst counts)) (sum_list (map snd counts)))"

subsection \<open>\<open>analyzeDataIntegrity\<close> and \<open>evaluateCodeConsistency\<close>\<close>

text \<open>
  What the file system holds: the numbers of files that the three glob patterns
  \<open>data/**/*.*\<close>, \<open>code/**/*.{py,R,js,ipynb}\<close> and \<open>content/**/*.{png,jpg,svg,csv}\<close> find, and
  whether \<open>data/README.md\<close> exists.
\<close>

record files =
  dataFiles :: nat
  hasDataReadme :: bool
  codeFiles :: nat
  resultFiles :: nat

definition analyzeDataIntegrity :: "files \<Rightarrow> real" where
  "analyzeDataIntegrity fs =
     (let score = 0.5 + (if dataFiles fs > 0 then 0.2 else 0)
                      + (if hasDataReadme fs then 0.2 else 0)
                      + (if codeFiles fs > 0 then 0.1 else 0)
      in min 1 score)"

definition evaluateCodeConsistency :: "files \<Rightarrow> real" where
  "evaluateCodeConsistency fs =
     (let score = 0.5 + (if codeFiles fs > 0 then 0.25 else 0)
                      + (if resultFiles fs > 0 then 0.25 else 0)
      in min 1 score)"

subsection \<open>\<open>calculateSignalAlignment\<close>\<close>

record component =
  score :: real
  factors :: "real list"

definition calculateSignalAlignment :: "article list \<Rightarrow> files \<Rightarrow> component" where
  "calculateSignalAlignment articles fs =
     (let citationScore = ca_score (analyzeArticleCitations articles);
          claimsScore = cl_score (findUnsupportedClaims articles);
          dataScore = analyzeDataIntegrity fs;
          codeScore = evaluateCodeConsistency fs
      in \<lparr>score = citationScore * 0.3 + claimsScore * 0.3 + dataScore * 0.2 + codeScore * 0.2,
          factors = [citationScore, claimsScore, dataScore, codeScore]\<rparr>)"

subsection \<open>Example documents\<close>

text \<open>Ten paragraphs: the first \<open>k\<close> of them carry one citation marker each (\<open>k \<le> 9\<close>).\<close>

definition ten_paragraphs :: "nat \<Rightarrow> article" where
  "ten_paragraphs k =
     \<lparr>a_file = ''content/index.md'',
      a_metadata = \<lparr>m_title = None, m_scope = None, m_tags = None, m_keywords = None\<rparr>,
      a_content = concat (replicate k (''[^r]'' @ [newline, newline]))
                  @ concat (replicate (9 - k) (''a'' @ [newline, newline])) @ ''b''\<rparr>"

definition two_claims :: article where
  "two_claims =
     \<lparr>a_file = ''content/index.md'',
      a_metadata = \<lparr>m_title = None, m_scope = None, m_tags = None, m_keywords = None\<rparr>,
      a_content = ''Work [^1] shows. It shows''\<rparr>"

definition repeated_claim :: article where
  "repeated_claim =
     \<lparr>a_file = ''content/index.md'',
      a_metadata = \<lparr>m_title = None, m_scope = None, m_tags = None, m_keywords = None\<rparr>,
      a_content = ''It shows. See [^1]. It shows. End''\<rparr>"

section \<open>coherence-check.js: feedback responsiveness\<close>

text \<open>
  What the platform and git return to the four analyses.  Every call is a value of type
  \<^typ>\<open>'a fetch\<close>; \<open>Failed\<close> is a call that throws.  Dates are the time values of
  \<open>new Date(...)\<close>.
\<close>

record open_issue =
  oi_number :: nat
  oi_comments :: "string list fetch"

record closed_issue =
  ci_number :: nat
  ci_gitlog :: "string fetch"

record closed_pull =
  cp_number :: nat
  cp_merged_at :: "string option"
  cp_reviewComments :: "int list fetch"
  cp_commits :: "int list fetch"

record platform =
  pl_owner :: string
  pl_openIssues :: "open_issue list fetch"
  pl_closedIssues :: "closed_issue list fetch"
  pl_closedPulls :: "closed_pull list fetch"
  pl_gitlog :: "string fetch"

subsection \<open>String helpers\<close>

text \<open>\<open>s.includes(t)\<close>, \<open>s.trim()\<close> and \<open>s.split('\n')\<close>.\<close>

fun includes_str :: "string \<Rightarrow> string \<Rightarrow> bool" where
  "includes_str [] t = (t = [])"
| "includes_str (c # cs) t = (take (length t) (c # cs) = t \<or> includes_str cs t)"

definition trim :: "string \<Rightarrow> string" where
  "trim s = rev (dropWhile isSpace (rev (dropWhile isSpace s)))"

fun split_on_newline :: "string \<Rightarrow> string \<Rightarrow> string list" where
  "split_on_newline cur [] = [rev cur]"
| "split_on_newline cur (c # cs) =
     (if c = newline then rev cur # split_on_newline [] cs else split_on_newline (c # cur) cs)"

definition split_lines :: "string \<Rightarrow> string list" where
  "split_lines s = split_on_newline [] s"

subsection \<open>\<open>analyzeOpenIssues\<close>\<close>

record open_issues_analysis =
  openIssueCount :: nat
  issuesWithResponses :: nat
  responseRate :: real
  oi_score :: real

text \<open>The loop over the open issues; \<open>None\<close> when fetching the comments of an issue throws.\<close>

fun count_responses :: "string \<Rightarrow> open_issue list \<Rightarrow> nat option" where
  "count_responses owner [] = Some 0"
| "count_responses owner (i # rest) =
     (case oi_comments i of
        Failed \<Rightarrow> None
      | Fetched logins \<Rightarrow>
          (let authorComments = filter (\<lambda>login. login = owner \<or> includes_str login ''author'') logins
           in map_option (\<lambda>n. (if length authorComments > 0 then 1 else 0) + n)
                (count_responses owner rest)))"

text \<open>The body of the \<open>try\<close>.\<close>

definition analyzeOpenIssues_try :: "string \<Rightarrow> open_issue list fetch \<Rightarrow> open_issues_analysis option" where
  "analyzeOpenIssues_try owner response =
     (case response of
        Failed \<Rightarrow> None
      | Fetched openIssues \<Rightarrow>
          (case count_responses owner openIssues of
             None \<Rightarrow> None
           | Some withResponses \<Rightarrow>
               (let rate = (if length openIssues > 0
                            then real withResponses / real (length openIssues) else 1)
                in Some \<lparr>openIssueCount = length openIssues, issuesWithResponses = withResponses,
                         responseRate = rate, oi_score = 0.5 + rate * 0.5\<rparr>)))"

definition analyzeOpenIssues :: "string \<Rightarrow> open_issue list fetch \<Rightarrow> open_issues_analysis" where
  "analyzeOpenIssues owner response =
     (case analyzeOpenIssues_try owner response of
        Some r \<Rightarrow> r
      | None \<Rightarrow> \<lparr>openIssueCount = 0, issuesWithResponses = 0, responseRate = 1, oi_score = 0.5\<rparr>)"

subsection \<open>\<open>analyzeIssueResolution\<close>\<close>

record issue_resolution_analysis =
  closedIssueCount :: nat
  issuesWithReferences :: nat
  resolutionRate :: real
  ir_score :: real

text \<open>
  A failing \<open>git log --grep\<close> is caught inside the loop, which goes on with the next issue.
\<close>

definition has_reference :: "closed_issue \<Rightarrow> bool" where
  "has_reference i = (case ci_gitlog i of Failed \<Rightarrow> False | Fetched out \<Rightarrow> length (trim out) > 0)"

definition analyzeIssueResolution_try ::
  "closed_issue list fetch \<Rightarrow> issue_resolution_analysis option" where
  "analyzeIssueResolution_try response =
     (case response of
        Failed \<Rightarrow> None
      | Fetched closedIssues \<Rightarrow>
          (let withReferences = length (filter has_reference closedIssues);
               rate = (if length closedIssues > 0
                       then real withReferences / real (length closedIssues) else 1)
           in Some \<lparr>closedIssueCount = length closedIssues, issuesWithReferences = withReferences,
                    resolutionRate = rate, ir_score = 0.5 + rate * 0.5\<rparr>))"

definition analyzeIssueResolution :: "closed_issue list fetch \<Rightarrow> issue_resolution_analysis" where
  "analyzeIssueResolution response =
     (case analyzeIssueResolution_try response of
        Some r \<Rightarrow> r
      | None \<Rightarrow> \<lparr>closedIssueCount = 0, issuesWithReferences = 0, resolutionRate = 1,
                  ir_score = 0.5\<rparr>)"

subsection \<open>\<open>analyzePRReviews\<close>\<close>

record pr_review_analysis =
  mergedPRCount :: nat
  prsWithReviewComments :: nat
  prsWithChangesAfterReview :: nat
  integrationRate :: real
  pr_score :: real

text \<open>\<open>pr.merged_at\<close> as a condition: \<open>null\<close> and the empty string are falsy.\<close>

definition is_merged :: "closed_pull \<Rightarrow> bool" where
  "is_merged pr = (case cp_merged_at pr of None \<Rightarrow> False | Some d \<Rightarrow> d \<noteq> [])"

text \<open>
  The loop over the merged pull requests, with the two counters; \<open>None\<close> when a fetch throws.
  The commits are fetched only for a pull request that has review comments.
\<close>

fun count_reviews :: "nat \<times> nat \<Rightarrow> closed_pull list \<Rightarrow> (nat \<times> nat) option" where
  "count_reviews (withComments, withChanges) [] = Some (withComments, withChanges)"
| "count_reviews (withComments, withChanges) (pr # rest) =
     (case cp_reviewComments pr of
        Failed \<Rightarrow> None
      | Fetched created \<Rightarrow>
          (if length created > 0
           then (case cp_commits pr of
                   Failed \<Rightarrow> None
                 | Fetched dates \<Rightarrow>
                     (let earliestReviewDate = Min (set created);
                          commitsAfterReview = filter (\<lambda>d. d > earliestReviewDate) dates
                      in count_reviews
                           (withComments + 1,
                            if length commitsAfterReview > 0 then withChanges + 1 else withChanges)
                           rest))
           else count_reviews (withComments, withChanges) rest))"

definition analyzePRReviews_try :: "closed_pull list fetch \<Rightarrow> pr_review_analysis option" where
  "analyzePRReviews_try response =
     (case response of
        Failed \<Rightarrow> None
      | Fetched prs \<Rightarrow>
          (let mergedPRs = filter is_merged prs in
           case count_reviews (0, 0) mergedPRs of
             None \<Rightarrow> None
           | Some (withComments, withChanges) \<Rightarrow>
               (let rate = (if withComments > 0 then real withChanges / real withComments else 1)
                in Some \<lparr>mergedPRCount = length mergedPRs, prsWithReviewComments = withComments,
                         prsWithChangesAfterReview = withChanges, integrationRate = rate,
                         pr_score = 0.5 + rate * 0.5\<rparr>)))"

definition analyzePRReviews :: "closed_pull list fetch \<Rightarrow> pr_review_analysis" where
  "analyzePRReviews response =
     (case analyzePRReviews_try response of
        Some r \<Rightarrow> r
      | None \<Rightarrow> \<lparr>mergedPRCount = 0, prsWithReviewComments = 0, prsWithChangesAfterReview = 0,
                  integrationRate = 1, pr_score = 0.5\<rparr>)"

subsection \<open>\<open>analyzeContentHistory\<close>\<close>

record content_history_analysis =
  totalCommits :: nat
  feedbackCommits :: nat
  revisionRate :: real
  ch_score :: real

text \<open>
  \<^verbatim>\<open>/\b(address|fix|improve|update|respond|incorporate|feedback|review|suggestion|comment)\b/i\<close>
\<close>

definition feedbackWords :: "string list" where
  "feedbackWords =
     [''address'', ''fix'', ''improve'', ''update'', ''respond'', ''incorporate'', ''feedback'',
      ''review'', ''suggestion'', ''comment'']"

definition feedback_at :: "string \<Rightarrow> nat option" where
  "feedback_at s = word_at feedbackWords s"

definition analyzeContentHistory :: "string fetch \<Rightarrow> content_history_analysis" where
  "analyzeContentHistory gitlog =
     (case gitlog of
        Failed \<Rightarrow> \<lparr>totalCommits = 0, feedbackCommits = 0, revisionRate = 0, ch_score = 0.5\<rparr>
      | Fetched commitMessages \<Rightarrow>
          (let fb = length (filter (contains_word feedback_at) (split_lines commitMessages));
               commits = length (split_lines commitMessages);
               rate = (if commits > 0 then real fb / real commits else 0);
               score = min 1 (rate * 2.5)
           in \<lparr>totalCommits = commits, feedbackCommits = fb, revisionRate = rate,
               ch_score = max 0 (min 1 score)\<rparr>))"

subsection \<open>\<open>calculateFeedbackResponsiveness\<close>\<close>

definition calculateFeedbackResponsiveness :: "platform \<Rightarrow> component" where
  "calculateFeedbackResponsiveness p =
     (let openIssuesScore = oi_score (analyzeOpenIssues (pl_owner p) (pl_openIssues p));
          issueResolutionScore = ir_score (analyzeIssueResolution (pl_closedIssues p));
          prReviewScore = pr_score (analyzePRReviews (pl_closedPulls p));
          historyScore = ch_score (analyzeContentHistory (pl_gitlog p))
      in \<lparr>score = openIssuesScore * 0.2 + issueResolutionScore * 0.3 + prReviewScore * 0.3
                  + historyScore * 0.2,
          factors = [openIssuesScore, issueResolutionScore, prReviewScore, historyScore]\<rparr>)"

subsection \<open>When a fetch of an analysis fails\<close>

text \<open>
  The fetches an analysis makes, in the order in which it makes them: does one of them fail?
\<close>

definition open_issues_fetch_fails :: "platform \<Rightarrow> bool" where
  "open_issues_fetch_fails p =
     (case pl_openIssues p of
        Failed \<Rightarrow> True
      | Fetched xs \<Rightarrow> list_ex (\<lambda>i. oi_comments i = Failed) xs)"

definition closed_issues_fetch_fails :: "platform \<Rightarrow> bool" where
  "closed_issues_fetch_fails p = (pl_closedIssues p = Failed)"

definition pull_fetch_fails :: "closed_pull \<Rightarrow> bool" where
  "pull_fetch_fails pr =
     (case cp_reviewComments pr of
        Failed \<Rightarrow> True
      | Fetched created \<Rightarrow> created \<noteq> [] \<and> cp_commits pr = Failed)"

definition pulls_fetch_fails :: "platform \<Rightarrow> bool" where
  "pulls_fetch_fails p =
     (case pl_closedPulls p of
        Failed \<Rightarrow> True
      | Fetched xs \<Rightarrow> list_ex pull_fetch_fails (filter is_merged xs))"

text \<open>An example: one open issue with a comment of the owner, and nothing else.\<close>

definition example_platform :: platform where
  "example_platform =
     \<lparr>pl_owner = ''ann'',
      pl_openIssues = Fetched [\<lparr>oi_number = 1, oi_comments = Fetched [''ann'']\<rparr>],
      pl_closedIssues = Fetched [\<lparr>ci_number = 2, ci_gitlog = Fetched ''abc fix #2''\<rparr>],
      pl_closedPulls = Fetched [\<lparr>cp_number = 3, cp_merged_at = Some ''2024-01-01'',
                                 cp_reviewComments = Fetched [10], cp_commits = Fetched [5, 20]\<rparr>],
      pl_gitlog = Fetched ''fix typo''\<rparr>"

section \<open>coherence-check.js: bounded integrity\<close>

text \<open>
  Three computations of the bounded-integrity analyses belong to the regular-expression engine
  and to the \<open>natural\<close> package rather than to the script; they are parameters of the model:
  \<^item> \<open>scope_regex_test scope text\<close>: does \<open>new RegExp(`\\b${scope}\\b`, 'ig')\<close> match in the
    text; \<open>None\<close> when the scope is not a regular expression and the constructor throws;
  \<^item> \<open>section_headers content\<close>: the matches of \<open>/^#{1,3}\s+(.+)$/gm\<close>, each with its index,
    its length and the title it captures;
  \<^item> \<open>extractTopics text\<close>: the ten most frequent tokens of the text that are no stop words
    and longer than three characters.
\<close>

record engine =
  scope_regex_test :: "string \<Rightarrow> string \<Rightarrow> bool option"
  section_headers :: "string \<Rightarrow> (nat \<times> nat \<times> string) list"
  extractTopics :: "string \<Rightarrow> string list"

subsection \<open>Helpers\<close>

text \<open>The truth value of a front-matter field, and its elements when it is spread or pushed.\<close>

definition truthy :: "yaml option \<Rightarrow> bool" where
  "truthy y = (case y of None \<Rightarrow> False | Some (Scalar s) \<Rightarrow> s \<noteq> [] | Some (Array _) \<Rightarrow> True)"

definition pushed :: "yaml option \<Rightarrow> string list" where
  "pushed y =
     (case y of
        None \<Rightarrow> []
      | Some (Scalar s) \<Rightarrow> (if s \<noteq> [] then [s] else [])
      | Some (Array xs) \<Rightarrow> xs)"

definition spread :: "yaml option \<Rightarrow> string list" where
  "spread y =
     (case y of
        None \<Rightarrow> []
      | Some (Scalar s) \<Rightarrow> map (\<lambda>c. [c]) s
      | Some (Array xs) \<Rightarrow> xs)"

text \<open>\<open>xs.join(' ')\<close> and \<open>s.split(/\s+/)\<close>.\<close>

fun join_space :: "string list \<Rightarrow> string" where
  "join_space [] = []"
| "join_space [x] = x"
| "join_space (x # y # rest) = x @ '' '' @ join_space (y # rest)"

function split_spaces :: "string \<Rightarrow> string \<Rightarrow> string list" where
  "split_spaces cur [] = [rev cur]"
| "split_spaces cur (c # cs) =
     (if isSpace c then rev cur # split_spaces [] (dropWhile isSpace cs)
      else split_spaces (c # cur) cs)"
  by pat_completeness auto
termination
  by (relation "measure (\<lambda>(cur, s). length s)")
     (auto simp: le_imp_less_Suc length_dropWhile_le)

definition split_words :: "string \<Rightarrow> string list" where
  "split_words s = split_spaces [] s"

text \<open>\<open>[...new Set(xs)]\<close>: the first occurrence of every element, in order.\<close>

definition unique :: "'a list \<Rightarrow> 'a list" where
  "unique xs = rev (remdups (rev xs))"

subsection \<open>\<open>analyzeScopeIntegrity\<close>\<close>

definition extractWords :: "string \<Rightarrow> string list" where
  "extractWords text =
     filter (\<lambda>word. word \<notin> set [''this'', ''that'', ''with'', ''from'', ''about''])
       (map (map toLowerCase) (filter (\<lambda>word. length word > 3) (split_words text)))"

text \<open>The scope terms taken from the title and the introduction of the first article.\<close>

definition scopes_of_introduction :: "article \<Rightarrow> string list" where
  "scopes_of_introduction mainArticle =
     (let titleWords =
            (case m_title (a_metadata mainArticle) of
               None \<Rightarrow> []
             | Some t \<Rightarrow>
                 (if t \<noteq> []
                  then map (map toLowerCase) (filter (\<lambda>word. length word > 3) (split_words t))
                  else []));
          intro = join_space (take 3 (split_paragraphs (a_content mainArticle)));
          introSentences = split_sentences intro
      in titleWords @ extractWords (hd introSentences) @ extractWords (last introSentences))"

text \<open>The loop over the scope terms; \<open>None\<close> when a term makes \<open>new RegExp\<close> throw.\<close>

fun count_scope_matches :: "(string \<Rightarrow> string \<Rightarrow> bool option) \<Rightarrow> string \<Rightarrow> string list \<Rightarrow> nat option" where
  "count_scope_matches test fullText [] = Some 0"
| "count_scope_matches test fullText (scope # rest) =
     (case test scope fullText of
        None \<Rightarrow> None
      | Some found \<Rightarrow>
          map_option (\<lambda>n. (if found then 1 else 0) + n) (count_scope_matches test fullText rest))"

record scope_analysis =
  declaredScopes :: "string list"
  scopeMatchCount :: nat
  scopeCoverage :: real
  hasDeclaredScope :: bool
  sc_score :: real

definition analyzeScopeIntegrity :: "engine \<Rightarrow> article list \<Rightarrow> scope_analysis option" where
  "analyzeScopeIntegrity eng articles =
     (let fullText = join_space (map a_content articles);
          declared = concat (map (\<lambda>a. pushed (m_scope (a_metadata a)) @
                                       pushed (m_tags (a_metadata a))) articles);
          scopes = (if length declared = 0 \<and> length articles > 0
                    then scopes_of_introduction (hd articles) else declared);
          uniqueScopes = unique (map (map toLowerCase) scopes)
      in case count_scope_matches (scope_regex_test eng) fullText uniqueScopes of
           None \<Rightarrow> None
         | Some matchCount \<Rightarrow>
             (let coverage = (if length uniqueScopes > 0
                              then real matchCount / real (length uniqueScopes) else 0);
                  declaredScope = list_ex (\<lambda>a. truthy (m_scope (a_metadata a)) \<or>
                                                truthy (m_tags (a_metadata a))) articles;
                  scopeScore = (if declaredScope then 0.5 else 0.3) + coverage * 0.5
              in Some \<lparr>declaredScopes = uniqueScopes, scopeMatchCount = matchCount,
                       scopeCoverage = coverage, hasDeclaredScope = declaredScope,
                       sc_score = min 1 scopeScore\<rparr>))"

subsection \<open>\<open>analyzeTopicDrift\<close>\<close>

text \<open>
  \<open>calculateTopicOverlap\<close>: the quotient is NaN when both topic lists are empty, and
  \<open>NaN >= 0.3\<close> is false.
\<close>

definition calculateTopicOverlap :: "string list \<Rightarrow> string list \<Rightarrow> jsnum" where
  "calculateTopicOverlap topics1 topics2 =
     (let common = filter (\<lambda>topic. topic \<in> set topics2) topics1;
          union = unique (topics1 @ topics2)
      in js_div (js_length common) (js_length union))"

fun js_ge :: "jsnum \<Rightarrow> real \<Rightarrow> bool" where
  "js_ge (Fin a) b = (a \<ge> b)"
| "js_ge NegZero b = (0 \<ge> b)"
| "js_ge PosInf b = True"
| "js_ge NegInf b = False"
| "js_ge NaN b = False"

text \<open>
  The sections of the main article: from the end of each header to the next header (or to
  the end of the text), trimmed; the topics of a section are those of its title and content.
\<close>

fun sections_of :: "engine \<Rightarrow> string \<Rightarrow> (nat \<times> nat \<times> string) list \<Rightarrow> string list list" where
  "sections_of eng content [] = []"
| "sections_of eng content ((index, len, title) # rest) =
     (let startPos = index + len;
          endPos = (case rest of [] \<Rightarrow> length content | (next, _, _) # _ \<Rightarrow> next);
          body = trim (take (endPos - startPos) (drop startPos content))
      in extractTopics eng (title @ '' '' @ body) # sections_of eng content rest)"

record drift_analysis =
  driftScore :: real
  sectionCount :: nat
  cohesiveCount :: nat
  cohesionRate :: real
  td_score :: real

definition analyzeTopicDrift :: "engine \<Rightarrow> article list \<Rightarrow> drift_analysis" where
  "analyzeTopicDrift eng articles =
     (if length articles = 0
      then \<lparr>driftScore = 0, sectionCount = 0, cohesiveCount = 0, cohesionRate = 0,
            td_score = 0.5\<rparr>
      else
        (let mainArticle = hd articles;
             found = sections_of eng (a_content mainArticle)
                       (section_headers eng (a_content mainArticle));
             sections = (if length found = 0 then [extractTopics eng (a_content mainArticle)]
                         else found);
             title = (case m_title (a_metadata mainArticle) of None \<Rightarrow> [] | Some t \<Rightarrow> t);
             mainTopics = extractTopics eng
                            (join_space (title # spread (m_tags (a_metadata mainArticle)) @
                                         spread (m_keywords (a_metadata mainArticle))));
             cohesive = length (filter (\<lambda>topics.
                                  js_ge (calculateTopicOverlap mainTopics topics) 0.3) sections);
             rate = (if length sections > 0 then real cohesive / real (length sections)
                     else 0);
             drift = 1 - rate;
             score = 1 - drift * 0.7
         in \<lparr>driftScore = drift, sectionCount = length sections, cohesiveCount = cohesive,
             cohesionRate = rate, td_score = max 0 (min 1 score)\<rparr>))"

subsection \<open>The placeholders and \<open>calculateBoundedIntegrity\<close>\<close>

definition evaluateTermConsistency :: real where
  "evaluateTermConsistency = 0.85"

definition analyzeMethodBoundaries :: real where
  "analyzeMethodBoundaries = 0.9"

definition calculateBoundedIntegrity :: "engine \<Rightarrow> article list \<Rightarrow> component option" where
  "calculateBoundedIntegrity eng articles =
     (case analyzeScopeIntegrity eng articles of
        None \<Rightarrow> None
      | Some scopeAnalysis \<Rightarrow>
          (let scopeScore = sc_score scopeAnalysis;
               driftScore = td_score (analyzeTopicDrift eng articles);
               termScore = evaluateTermConsistency;
               methodScore = analyzeMethodBoundaries
           in Some \<lparr>score = scopeScore * 0.3 + driftScore * 0.3 + termScore * 0.2
                            + methodScore * 0.2,
                    factors = [scopeScore, driftScore, termScore, methodScore]\<rparr>))"

section \<open>coherence-check.js: elastic tolerance\<close>

text \<open>The four analyses are placeholders that return fixed scores.\<close>

definition analyzeContradictions :: real where
  "analyzeContradictions = 0.8"

definition analyzeMultiplePerspectives :: real where
  "analyzeMultiplePerspectives = 0.7"

definition evaluateUncertaintyRepresentation :: real where
  "evaluateUncertaintyRepresentation = 0.8"

definition analyzeLimitationAcknowledgment :: real where
  "analyzeLimitationAcknowledgment = 0.85"

definition calculateElasticTolerance :: component where
  "calculateElasticTolerance =
     (let contradictionScore = analyzeContradictions;
          perspectiveScore = analyzeMultiplePerspectives;
          uncertaintyScore = evaluateUncertaintyRepresentation;
          limitationScore = analyzeLimitationAcknowledgment
      in \<lparr>score = contradictionScore * 0.25 + perspectiveScore * 0.25
                  + uncertaintyScore * 0.25 + limitationScore * 0.25,
          factors = [contradictionScore, perspectiveScore, uncertaintyScore, limitationScore]\<rparr>)"

section \<open>coherence-check.js: the overall coherence\<close>

text \<open>
  The operator \<open>**\<close> (\<open>Number::exponentiate\<close>), case by case as the language defines it.
\<close>

definition odd_integer :: "jsnum \<Rightarrow> bool" where
  "odd_integer e = (is_finite e \<and> val e \<in> \<int> \<and> odd \<lfloor>val e\<rfloor>)"

definition js_pow :: "jsnum \<Rightarrow> jsnum \<Rightarrow> jsnum" where
  "js_pow base e =
     (if e = NaN then NaN
      else if is_zero e then Fin 1
      else if base = NaN then NaN
      else if base = PosInf then (if is_neg e then Fin 0 else PosInf)
      else if base = NegInf
        then (if is_neg e then (if odd_integer e then NegZero else Fin 0)
              else (if odd_integer e then NegInf else PosInf))
      else if base = Fin 0 then (if is_neg e then PosInf else Fin 0)
      else if base = NegZero
        then (if is_neg e then (if odd_integer e then NegInf else PosInf)
              else (if odd_integer e then NegZero else Fin 0))
      else if e = PosInf
        then (if \<bar>val base\<bar> > 1 then PosInf else if \<bar>val base\<bar> = 1 then NaN else Fin 0)
      else if e = NegInf
        then (if \<bar>val base\<bar> > 1 then Fin 0 else if \<bar>val base\<bar> = 1 then NaN else PosInf)
      else if val base < 0 \<and> val e \<notin> \<int> then NaN
      else if val base < 0 then Fin (val base powi \<lfloor>val e\<rfloor>)
      else Fin (val base powr val e))"

record weights =
  w_signal :: real
  w_feedback :: real
  w_bounded :: real
  w_elastic :: real

record thresholds =
  t_signal :: real
  t_feedback :: real
  t_bounded :: real
  t_elastic :: real
  t_overall :: real

text \<open>The constants of \<open>config\<close>.\<close>

definition config_weights :: weights where
  "config_weights = \<lparr>w_signal = 1.0, w_feedback = 1.0, w_bounded = 1.0, w_elastic = 1.0\<rparr>"

definition config_thresholds :: thresholds where
  "config_thresholds =
     \<lparr>t_signal = 0.7, t_feedback = 0.7, t_bounded = 0.7, t_elastic = 0.7, t_overall = 0.7\<rparr>"

definition calculateOverallCoherence :: "weights \<Rightarrow> real \<Rightarrow> real \<Rightarrow> real \<Rightarrow> real \<Rightarrow> jsnum" where
  "calculateOverallCoherence w signalAlignment feedbackResponsiveness boundedIntegrity
       elasticTolerance =
     (let s = js_pow (Fin signalAlignment) (Fin (w_signal w));
          f = js_pow (Fin feedbackResponsiveness) (Fin (w_feedback w));
          b = js_pow (Fin boundedIntegrity) (Fin (w_bounded w));
          l = js_pow (Fin elasticTolerance) (Fin (w_elastic w));
          totalWeight = w_signal w + w_feedback w + w_bounded w + w_elastic w
      in js_pow (js_mul (js_mul (js_mul s f) b) l) (js_div (Fin 1) (Fin totalWeight)))"

section \<open>coherence-check.js: the run\<close>

subsection \<open>\<open>generateRecommendations\<close>\<close>

text \<open>
  For a component below its threshold, the recommendations of its factors below 0.7, in the
  order of the factors.
\<close>

definition recommend :: "real \<Rightarrow> component \<Rightarrow> string list \<Rightarrow> string list" where
  "recommend threshold c texts =
     (if score c < threshold
      then map snd (filter (\<lambda>(factor, text). factor < 0.7) (zip (factors c) texts))
      else [])"

definition generateRecommendations ::
  "component \<Rightarrow> component \<Rightarrow> component \<Rightarrow> component \<Rightarrow> string list" where
  "generateRecommendations signalAlignment feedbackResponsiveness boundedIntegrity
       elasticTolerance =
     recommend (t_signal config_thresholds) signalAlignment
       [''Strengthen citation network by adding more references to support claims'',
        ''Address unsupported claims by providing evidence or clarifying as hypotheses'',
        ''Improve data integrity by including source data and validation steps'',
        ''Ensure code and results are consistent by updating analysis or clarifying discrepancies'']
     @ recommend (t_feedback config_thresholds) feedbackResponsiveness
       [''Address open issues more promptly to improve feedback engagement'',
        ''Improve issue resolution rate by incorporating feedback into revisions'',
        ''Better integrate PR review feedback into content updates'',
        ''Ensure content evolution reflects engagement with critical feedback'']
     @ recommend (t_bounded config_thresholds) boundedIntegrity
       [''Ensure content stays within declared scope by focusing on core topics'',
        ''Reduce topic drift by maintaining consistent focus throughout the article'',
        ''Improve term consistency by using defined terminology throughout the article'',
        ''Maintain methodological boundaries by clarifying approach limitations'']
     @ recommend (t_elastic config_thresholds) elasticTolerance
       [''Better acknowledge and integrate contradictory evidence or perspectives'',
        ''Include multiple perspectives on controversial or complex topics'',
        ''More clearly represent uncertainty in findings and conclusions'',
        ''Acknowledge limitations of the approach, data, or conclusions'']"

subsection \<open>\<open>checkCoherence\<close>\<close>

text \<open>
  What a run reads: the articles under \<open>content/\<close>, the file system, the platform and git, and
  the recursion depth declared in \<open>content/index.md\<close> (\<open>None\<close> when the file cannot be read or
  declares no number).
\<close>

record repository =
  repo_articles :: "article list"
  repo_files :: files
  repo_platform :: platform
  repo_depth :: "real option"

text \<open>
  The report written to \<open>meta/coherence.json\<close>.  The detail strings, which print the factors
  with two decimals, and the metadata other than the recursion depth are left out.
\<close>

record report =
  overallScore :: jsnum
  c_signalAlignment :: real
  c_feedbackResponsiveness :: real
  c_boundedIntegrity :: real
  c_elasticTolerance :: real
  recommendations :: "string list"
  recursiveDepth :: real

text \<open>
  The outcome of a run: the report it wrote and its exit code, or the exit with code 1 from the
  \<open>catch\<close> of \<open>checkCoherence\<close>, before anything is written.
\<close>

datatype outcome = Completed report nat | Errored

fun js_lt :: "jsnum \<Rightarrow> real \<Rightarrow> bool" where
  "js_lt (Fin a) b = (a < b)"
| "js_lt NegZero b = (0 < b)"
| "js_lt PosInf b = False"
| "js_lt NegInf b = True"
| "js_lt NaN b = False"

definition determineRecursiveDepth :: "repository \<Rightarrow> real" where
  "determineRecursiveDepth r = (case repo_depth r of Some d \<Rightarrow> d | None \<Rightarrow> 1)"

definition checkCoherence :: "engine \<Rightarrow> repository \<Rightarrow> outcome" where
  "checkCoherence eng r =
     (let signalAlignment = calculateSignalAlignment (repo_articles r) (repo_files r);
          feedbackResponsiveness = calculateFeedbackResponsiveness (repo_platform r)
      in case calculateBoundedIntegrity eng (repo_articles r) of
           None \<Rightarrow> Errored
         | Some boundedIntegrity \<Rightarrow>
             (let elasticTolerance = calculateElasticTolerance;
                  overall = calculateOverallCoherence config_weights
                              (score signalAlignment) (score feedbackResponsiveness)
                              (score boundedIntegrity) (score elasticTolerance);
                  coherenceReport =
                    \<lparr>overallScore = overall,
                     c_signalAlignment = score signalAlignment,
                     c_feedbackResponsiveness = score feedbackResponsiveness,
                     c_boundedIntegrity = score boundedIntegrity,
                     c_elasticTolerance = score elasticTolerance,
                     recommendations = generateRecommendations signalAlignment
                                         feedbackResponsiveness boundedIntegrity elasticTolerance,
                     recursiveDepth = determineRecursiveDepth r\<rparr>
              in Completed coherenceReport
                   (if js_lt overall (t_overall config_thresholds) then 1 else 0)))"

subsection \<open>The publication workflow\<close>

text \<open>
  The publishing workflow runs the coherence check, which fails the job with a non-zero exit
  code, and then compares the score of the report with the publication threshold:
  \<^verbatim>\<open>if (( $(echo "$SCORE < 0.8" | bc -l) )); then ... exit 1\<close>
\<close>

definition publication_threshold :: real where
  "publication_threshold = 0.8"

definition publication_passes :: "outcome \<Rightarrow> bool" where
  "publication_passes out =
     (case out of
        Errored \<Rightarrow> False
      | Completed rep code \<Rightarrow> code = 0 \<and> \<not> js_lt (overallScore rep) publication_threshold)"

subsection \<open>The empty repository\<close>

text \<open>
  No documents, no data, code or result files, no issues and no pull requests; \<open>gitlog\<close> is
  what \<open>git log\<close> gives in a repository without commits (it fails; an empty output is covered
  as well).
\<close>

definition empty_repository :: "string fetch \<Rightarrow> repository" where
  "empty_repository gitlog =
     \<lparr>repo_articles = [],
      repo_files = \<lparr>dataFiles = 0, hasDataReadme = False, codeFiles = 0, resultFiles = 0\<rparr>,
      repo_platform = \<lparr>pl_owner = ''recursive-distill'', pl_openIssues = Fetched [],
                       pl_closedIssues = Fetched [], pl_closedPulls = Fetched [],
                       pl_gitlog = gitlog\<rparr>,
      repo_depth = None\<rparr>"

text \<open>The recommendations that a run on the empty repository puts into its report.\<close>

definition empty_repository_recommendations :: "string list" where
  "empty_repository_recommendations =
     [''Strengthen citation network by adding more references to support claims'',
      ''Improve data integrity by including source data and validation steps'',
      ''Ensure code and results are consistent by updating analysis or clarifying discrepancies'',
      ''Ensure content stays within declared scope by focusing on core topics'',
      ''Reduce topic drift by maintaining consistent focus throughout the article'']"

subsection \<open>Neutral components\<close>

text \<open>
  The neutral score of the script (\<open>score: 0.5 // Neutral score if we can't analyze\<close>), and
  the statement that a run completed with all four components at that score.
\<close>

definition neutral_score :: real where
  "neutral_score = 0.5"

definition components_neutral :: "outcome \<Rightarrow> bool" where
  "components_neutral out =
     (case out of
        Errored \<Rightarrow> False
      | Completed rep code \<Rightarrow>
          c_signalAlignment rep = neutral_score \<and>
          c_feedbackResponsiveness rep = neutral_score \<and>
          c_boundedIntegrity rep = neutral_score \<and>
          c_elasticTolerance rep = neutral_score)"

text \<open>An engine for the examples: no scope term matches, no headers, no topics.\<close>

definition example_engine :: engine where
  "example_engine =
     \<lparr>scope_regex_test = (\<lambda>scope text. Some False),
      section_headers = (\<lambda>content. []),
      extractTopics = (\<lambda>text. [])\<rparr>"

section \<open>Properties of the attribution graph (attribution-map.js)\<close>


lemma covers_refl: "covers g g"
  by (simp add: covers_def)

lemma covers_trans: "covers h g \<Longrightarrow> covers g f \<Longrightarrow> covers h f"
  by (simp add: covers_def)

lemma has_node_iff: "has_node g i \<longleftrightarrow> i \<in> n_id ` set (nodes g)"
  by (auto simp: has_node_def list_ex_iff)

lemma has_link_iff: "has_link g k \<longleftrightarrow> (\<exists>l \<in> set (links g). same_link l k)"
  by (simp add: has_link_def list_ex_iff)

lemma same_link_refl: "same_link k k"
  by (simp add: same_link_def)

lemma addContentNode_covers: "covers (addContentNode g c) g"
  by (auto simp: covers_def addContentNode_def Let_def has_node_iff has_link_iff)

lemma addContentNode_has: "has_node (addContentNode g c) (nodeId ''content'' (ct_path c))"
  by (auto simp: addContentNode_def Let_def has_node_iff)

lemma addContentNode_existing:
  "has_node g (nodeId ''content'' (ct_path c)) \<Longrightarrow> addContentNode g c = g"
  by (simp add: addContentNode_def)

lemma addLink_covers: "covers (addLink g k) g"
  by (auto simp: covers_def addLink_def has_node_iff has_link_iff)

lemma addLink_has: "has_link (addLink g k) k"
  by (auto simp: addLink_def has_link_iff same_link_refl)

lemma addLink_existing: "has_link g k \<Longrightarrow> addLink g k = g"
  by (simp add: addLink_def)

lemma addContributorNode_covers: "addContributorNode g c = Some g' \<Longrightarrow> covers g' g"
  by (auto simp: covers_def addContributorNode_def Let_def has_node_iff has_link_iff
           split: option.splits if_splits)

lemma addContributorNode_has:
  "addContributorNode g c = Some g' \<Longrightarrow> name_or_github c = Some nm \<Longrightarrow>
   has_node g' (nodeId ''contributor'' nm)"
  by (auto simp: addContributorNode_def Let_def has_node_iff split: option.splits if_splits)

lemma addContributorNode_existing:
  "name_or_github c = Some nm \<Longrightarrow> has_node g (nodeId ''contributor'' nm) \<Longrightarrow>
   addContributorNode g c = Some g"
  by (simp add: addContributorNode_def)

lemma addContributorNode_None: "addContributorNode g c = None \<longleftrightarrow> name_or_github c = None"
  by (simp add: addContributorNode_def Let_def split: option.splits)

lemma tryOps_covers: "covers (tryOps g ops) g"
proof (induction g ops rule: tryOps.induct)
  case (2 g c ops)
  then show ?case
    by (auto split: option.splits intro: covers_refl covers_trans dest: addContributorNode_covers)
next
  case (3 g c ops)
  then show ?case using addContentNode_covers covers_trans by (metis tryOps.simps(3))
next
  case (4 g k ops)
  then show ?case using addLink_covers covers_trans by (metis tryOps.simps(4))
qed (simp_all add: covers_refl)

lemma tryOps_absorbed: "covers h (tryOps g ops) \<Longrightarrow> tryOps h ops = h"
proof (induction g ops rule: tryOps.induct)
  case (1 g)
  then show ?case by simp
next
  case (2 g c ops)
  show ?case
  proof (cases "name_or_github c")
    case None
    then have "addContributorNode h c = None" by (simp add: addContributorNode_None)
    then show ?thesis by simp
  next
    case (Some nm)
    then obtain g' where g': "addContributorNode g c = Some g'"
      using addContributorNode_None [of g c] by (cases "addContributorNode g c") auto
    have "covers (tryOps g' ops) g'" by (rule tryOps_covers)
    with "2.prems" g' have "covers h g'" by (auto intro: covers_trans)
    moreover have "has_node g' (nodeId ''contributor'' nm)"
      using g' Some by (rule addContributorNode_has)
    ultimately have "has_node h (nodeId ''contributor'' nm)" by (simp add: covers_def)
    then have "addContributorNode h c = Some h" using Some by (simp add: addContributorNode_existing)
    moreover have "tryOps h ops = h" using "2.IH" [OF g'] "2.prems" g' by simp
    ultimately show ?thesis by simp
  qed
next
  case (3 g c ops)
  have "covers h (addContentNode g c)"
    using "3.prems" tryOps_covers [of "addContentNode g c" ops] by (auto intro: covers_trans)
  then have "has_node h (nodeId ''content'' (ct_path c))"
    using addContentNode_has [of g c] by (simp add: covers_def)
  then have "addContentNode h c = h" by (rule addContentNode_existing)
  then show ?case using "3.IH" "3.prems" by simp
next
  case (4 g k ops)
  have "covers h (addLink g k)"
    using "4.prems" tryOps_covers [of "addLink g k" ops] by (auto intro: covers_trans)
  then have "has_link h k" using addLink_has [of g k] by (simp add: covers_def)
  then have "addLink h k = h" by (rule addLink_existing)
  then show ?case using "4.IH" "4.prems" by simp
next
  case (5 g ops)
  then show ?case by simp
qed


lemma count_contributions_id [simp]: "n_id (count_contributions ls n) = n_id n"
  by (simp add: count_contributions_def Let_def)

lemma count_contributions_type [simp]: "n_type (count_contributions ls n) = n_type n"
  by (simp add: count_contributions_def Let_def)

lemma count_contributions_idem [simp]:
  "count_contributions ls (count_contributions ls n) = count_contributions ls n"
  by (simp add: count_contributions_def Let_def)

lemma metrics_has_node [simp]: "has_node (calculateAttributionMetrics now g) i = has_node g i"
  by (auto simp: has_node_iff calculateAttributionMetrics_def image_iff)

lemma metrics_links [simp]: "links (calculateAttributionMetrics now g) = links g"
  by (simp add: calculateAttributionMetrics_def)

lemma metrics_has_link [simp]: "has_link (calculateAttributionMetrics now g) k = has_link g k"
  by (simp add: has_link_def)

lemma metrics_covers: "covers (calculateAttributionMetrics now g) g"
  by (simp add: covers_def)

lemma graph_density_metrics [simp]:
  "graph_density (calculateAttributionMetrics now g) = graph_density g"
  by (simp add: graph_density_def js_length_def js_length_minus_1_def
        calculateAttributionMetrics_def)

lemma metrics_twice:
  "calculateAttributionMetrics t2 (calculateAttributionMetrics t1 g) =
   calculateAttributionMetrics t2 g"
proof -
  have d: "graph_density (calculateAttributionMetrics t1 g) = graph_density g" by simp
  show ?thesis
    unfolding calculateAttributionMetrics_def [of t2] d
    by (simp add: calculateAttributionMetrics_def [of t1] comp_def)
qed

lemma mapCode_covers: "covers (mapCodeContributions f g l) g"
  by (simp add: mapCodeContributions_def covers_refl tryOps_covers split: fetch.splits)

lemma mapIssue_covers: "covers (mapIssueContributions g l) g"
  by (simp add: mapIssueContributions_def covers_refl tryOps_covers split: fetch.splits)

lemma mapPR_covers: "covers (mapPRContributions g l) g"
  by (simp add: mapPRContributions_def covers_refl tryOps_covers split: fetch.splits)

lemma mapCode_absorbed: "covers h (mapCodeContributions f g l) \<Longrightarrow> mapCodeContributions f h l = h"
  by (auto simp: mapCodeContributions_def split: fetch.splits intro: tryOps_absorbed)

lemma mapIssue_absorbed: "covers h (mapIssueContributions g l) \<Longrightarrow> mapIssueContributions h l = h"
  by (auto simp: mapIssueContributions_def split: fetch.splits intro: tryOps_absorbed)

lemma mapPR_absorbed: "covers h (mapPRContributions g l) \<Longrightarrow> mapPRContributions h l = h"
  by (auto simp: mapPRContributions_def split: fetch.splits intro: tryOps_absorbed)

lemma run_twice:
  "generateAttributionMap f t2 (generateAttributionMap f t1 g ev) ev =
   generateAttributionMap f t2 g ev"
proof -
  define A where "A = mapCodeContributions f g (ev_log ev)"
  define B where "B = mapIssueContributions A (ev_issues ev)"
  define C where "C = mapPRContributions B (ev_pulls ev)"
  define G where "G = calculateAttributionMetrics t1 C"
  have GC: "covers G C" unfolding G_def by (rule metrics_covers)
  have GB: "covers G B" using GC mapPR_covers [of B "ev_pulls ev"] unfolding C_def
    by (rule covers_trans)
  have GA: "covers G A" using GB mapIssue_covers [of A "ev_issues ev"] unfolding B_def
    by (rule covers_trans)
  have 1: "mapCodeContributions f G (ev_log ev) = G"
    using GA unfolding A_def by (rule mapCode_absorbed)
  have 2: "mapIssueContributions G (ev_issues ev) = G"
    using GB unfolding B_def by (rule mapIssue_absorbed)
  have 3: "mapPRContributions G (ev_pulls ev) = G"
    using GC unfolding C_def by (rule mapPR_absorbed)
  have "generateAttributionMap f t1 g ev = G"
    by (simp add: generateAttributionMap_def mapDiscussionContributions_def G_def C_def B_def A_def)
  moreover have "generateAttributionMap f t2 G ev = calculateAttributionMetrics t2 G"
    by (simp add: generateAttributionMap_def mapDiscussionContributions_def 1 2 3)
  moreover have "calculateAttributionMetrics t2 G = calculateAttributionMetrics t2 C"
    unfolding G_def by (rule metrics_twice)
  moreover have "generateAttributionMap f t2 g ev = calculateAttributionMetrics t2 C"
    by (simp add: generateAttributionMap_def mapDiscussionContributions_def C_def B_def A_def)
  ultimately show ?thesis by simp
qed

lemma run_clock_nodes:
  "nodes (generateAttributionMap f t2 g ev) = nodes (generateAttributionMap f t1 g ev)"
  by (simp add: generateAttributionMap_def calculateAttributionMetrics_def)

lemma run_clock_links:
  "links (generateAttributionMap f t2 g ev) = links (generateAttributionMap f t1 g ev)"
  by (simp add: generateAttributionMap_def calculateAttributionMetrics_def)

lemma run_clock_metrics:
  "map_option (\<lambda>m. (contributorCount m, totalContributions m, contentNodes m, density m))
     (g_metrics (generateAttributionMap f t2 g ev)) =
   map_option (\<lambda>m. (contributorCount m, totalContributions m, contentNodes m, density m))
     (g_metrics (generateAttributionMap f t1 g ev))"
  by (simp add: generateAttributionMap_def calculateAttributionMetrics_def)

text \<open>
  Claim C2.  Running the Attribution Graph Builder a second time on the same events leaves the
  graph as the first run wrote it: the second run equals a single run (with the second run's
  clock reading in \<open>lastUpdated\<close>), so the node list (with every contribution count and
  breakdown), the link list, the three counts and the density are those of the first run.
  No node id and no link key \<open>(source, target, type, timestamp)\<close> is added twice
  (\<open>addContributorNode_existing\<close>, \<open>addContentNode_existing\<close>, \<open>addLink_existing\<close>).
\<close>

theorem attribution_builder_idempotent:
  "generateAttributionMap f t2 (generateAttributionMap f t1 g ev) ev =
     generateAttributionMap f t2 g ev
   \<and> nodes (generateAttributionMap f t2 (generateAttributionMap f t1 g ev) ev) =
     nodes (generateAttributionMap f t1 g ev)
   \<and> links (generateAttributionMap f t2 (generateAttributionMap f t1 g ev) ev) =
     links (generateAttributionMap f t1 g ev)
   \<and> map_option (\<lambda>m. (contributorCount m, totalContributions m, contentNodes m, density m))
       (g_metrics (generateAttributionMap f t2 (generateAttributionMap f t1 g ev) ev)) =
     map_option (\<lambda>m. (contributorCount m, totalContributions m, contentNodes m, density m))
       (g_metrics (generateAttributionMap f t1 g ev))"
  unfolding run_twice using run_clock_nodes run_clock_links run_clock_metrics by blast


text \<open>
  The scenario of two commits by one author on one file on different days: one contributor
  node with two contributions, one content node, two links.
\<close>

lemma attribution_two_commits_scenario:
  "(let g = generateAttributionMap (\<lambda>ms. Some (string_of_nat (nat ms))) ''now'' initial_graph
       \<lparr>ev_log = Fetched
          [\<lparr>cm_hash = ''h1'', cm_author = ''Ann'', cm_email = ''a@x'', cm_timestamp = 1,
            cm_message = ''one'',
            cm_files = [\<lparr>f_additions = 2, f_deletions = 1, f_path = ''index.md''\<rparr>]\<rparr>,
           \<lparr>cm_hash = ''h2'', cm_author = ''Ann'', cm_email = ''a@x'', cm_timestamp = 2,
            cm_message = ''two'',
            cm_files = [\<lparr>f_additions = 1, f_deletions = 0, f_path = ''index.md''\<rparr>]\<rparr>],
         ev_issues = Fetched [], ev_pulls = Fetched []\<rparr>
    in map n_id (nodes g) = [''contributor:Ann'', ''content:index_md'']
     \<and> map n_contributions (nodes g) = [Some 2, None]
     \<and> map l_timestamp (links g) = [Some ''1000'', Some ''2000'']
     \<and> map_option density (g_metrics g) = Some (Fin 2))"
  by code_simp

lemma density_recorded:
  "map_option density (g_metrics (calculateAttributionMetrics now g)) = Some (graph_density g)"
  by (simp add: calculateAttributionMetrics_def)

lemma density_no_nodes:
  "nodes g = [] \<Longrightarrow> graph_density g = (if links g = [] then NaN else NegInf)"
  by (simp add: graph_density_def js_div_def js_mul_def js_length_def js_length_minus_1_def)

lemma density_one_node:
  "length (nodes g) = 1 \<Longrightarrow> graph_density g = (if links g = [] then NaN else PosInf)"
  by (simp add: graph_density_def js_div_def js_mul_def js_length_def js_length_minus_1_def)

lemma density_many_nodes:
  assumes "2 \<le> length (nodes g)"
  shows "graph_density g =
     Fin (real (length (links g)) /
            (real (length (nodes g)) * (real (length (nodes g)) - 1) / 2))"
proof -
  have "0 < real (length (nodes g))" "0 < real (length (nodes g)) - 1"
    using assms by auto
  then have "0 < real (length (nodes g)) * (real (length (nodes g)) - 1)"
    by (rule mult_pos_pos)
  then have "\<not> real (length (nodes g)) * (real (length (nodes g)) - 1) < 0"
       "real (length (nodes g)) \<noteq> 0" "real (length (nodes g)) \<noteq> 1"
       "nodes g \<noteq> []"
    by auto
  then show ?thesis
    by (simp add: graph_density_def js_div_def js_mul_def js_length_def js_length_minus_1_def)
qed

lemma wf_no_nodes: "wf_graph g \<Longrightarrow> nodes g = [] \<Longrightarrow> links g = []"
  by (cases "links g") (simp_all add: wf_graph_def has_node_def)

text \<open>
  Claim C9.  The density that \<open>calculateAttributionMetrics\<close> records is the quotient
  \<open>links.length / (nodes.length * (nodes.length - 1) / 2)\<close>, computed without a guard.  The
  theorem gives its value in every case.  Without nodes the divisor is the negative zero: the
  density is NaN when there are no links, as in every well-formed graph without nodes, and
  \<open>-Infinity\<close> otherwise.  With one node the divisor is the positive zero: the density is NaN
  without links and \<open>Infinity\<close> with links.  From two nodes on it is the finite quotient of the
  number of links by \<open>n * (n - 1) / 2\<close>.  So the density is finite exactly when the graph has
  at least two nodes.
\<close>

theorem density_division_unguarded:
  "map_option density (g_metrics (calculateAttributionMetrics now g)) = Some (graph_density g)
   \<and> (length (nodes g) = 0 \<longrightarrow>
         graph_density g = (if links g = [] then NaN else NegInf))
   \<and> (length (nodes g) = 1 \<longrightarrow>
         graph_density g = (if links g = [] then NaN else PosInf))
   \<and> (2 \<le> length (nodes g) \<longrightarrow>
         graph_density g =
           Fin (real (length (links g)) /
                  (real (length (nodes g)) * (real (length (nodes g)) - 1) / 2)))
   \<and> (length (nodes g) < 2 \<longrightarrow> \<not> is_finite (graph_density g))
   \<and> (wf_graph g \<and> length (nodes g) = 0 \<longrightarrow> graph_density g = NaN)
   \<and> (length (nodes g) = 1 \<longrightarrow> graph_density g = PosInf \<or> graph_density g = NaN)
   \<and> (is_finite (graph_density g) \<longleftrightarrow> 2 \<le> length (nodes g))"
proof -
  have v0: "length (nodes g) = 0 \<Longrightarrow> graph_density g = (if links g = [] then NaN else NegInf)"
    by (simp add: density_no_nodes)
  have v1: "length (nodes g) = 1 \<Longrightarrow> graph_density g = (if links g = [] then NaN else PosInf)"
    by (rule density_one_node)
  have v2: "2 \<le> length (nodes g) \<Longrightarrow> graph_density g =
           Fin (real (length (links g)) /
                  (real (length (nodes g)) * (real (length (nodes g)) - 1) / 2))"
    by (rule density_many_nodes)
  have a: "length (nodes g) < 2 \<Longrightarrow> \<not> is_finite (graph_density g)"
  proof -
    assume "length (nodes g) < 2"
    then consider "nodes g = []" | "length (nodes g) = 1" by (cases "nodes g") auto
    then show ?thesis
      by cases (simp_all add: density_no_nodes density_one_node)
  qed
  have b: "2 \<le> length (nodes g) \<Longrightarrow> is_finite (graph_density g)"
    by (simp add: density_many_nodes)
  have c: "wf_graph g \<Longrightarrow> length (nodes g) = 0 \<Longrightarrow> graph_density g = NaN"
    using wf_no_nodes [of g] by (simp add: density_no_nodes)
  have d: "length (nodes g) = 1 \<Longrightarrow> graph_density g = PosInf \<or> graph_density g = NaN"
    by (simp add: density_one_node)
  have e: "is_finite (graph_density g) \<longleftrightarrow> 2 \<le> length (nodes g)"
    using a b by (metis not_less)
  show ?thesis using density_recorded v0 v1 v2 a c d e by blast
qed

lemma example_graph_sizes:
  "nodes initial_graph = [] \<and> links initial_graph = []
   \<and> nodes dangling_link_graph = [] \<and> length (links dangling_link_graph) = 1
   \<and> length (nodes one_node_graph) = 1 \<and> links one_node_graph = []
   \<and> length (nodes one_node_linked_graph) = 1 \<and> length (links one_node_linked_graph) = 1
   \<and> length (nodes two_node_graph) = 2 \<and> length (links two_node_graph) = 1"
  by code_simp

theorem density_division_unguarded_witness:
  "wf_graph initial_graph \<and> length (nodes initial_graph) = 0
   \<and> length (nodes initial_graph) < 2
   \<and> graph_density initial_graph = NaN
   \<and> \<not> is_finite (graph_density initial_graph)
   \<and> length (nodes dangling_link_graph) = 0
   \<and> graph_density dangling_link_graph = NegInf
   \<and> length (nodes one_node_graph) = 1
   \<and> graph_density one_node_graph = NaN
   \<and> \<not> is_finite (graph_density one_node_graph)
   \<and> length (nodes one_node_linked_graph) = 1
   \<and> graph_density one_node_linked_graph = PosInf
   \<and> 2 \<le> length (nodes two_node_graph)
   \<and> graph_density two_node_graph = Fin 1
   \<and> is_finite (graph_density two_node_graph)"
proof -
  have w: "wf_graph initial_graph"
    by (simp add: wf_graph_def initial_graph_def)
  have n: "length (nodes initial_graph) = 0" "length (nodes dangling_link_graph) = 0"
      "length (nodes one_node_graph) = 1" "length (nodes one_node_linked_graph) = 1"
      "length (nodes two_node_graph) = 2"
    using example_graph_sizes by simp_all
  have l: "links initial_graph = []" "links dangling_link_graph \<noteq> []"
      "links one_node_graph = []" "links one_node_linked_graph \<noteq> []"
      "length (links two_node_graph) = 1"
    using example_graph_sizes by auto
  have d0: "graph_density initial_graph = NaN" "\<not> is_finite (graph_density initial_graph)"
    using density_division_unguarded [of "''now''" initial_graph] w n(1) l(1) by simp_all
  have d1: "graph_density dangling_link_graph = NegInf"
    using density_division_unguarded [of "''now''" dangling_link_graph] n(2) l(2) by simp
  have d2: "graph_density one_node_graph = NaN" "\<not> is_finite (graph_density one_node_graph)"
    using density_division_unguarded [of "''now''" one_node_graph] n(3) l(3) by simp_all
  have d3: "graph_density one_node_linked_graph = PosInf"
    using density_division_unguarded [of "''now''" one_node_linked_graph] n(4) l(4) by simp
  have d4: "graph_density two_node_graph = Fin 1" "is_finite (graph_density two_node_graph)"
    using density_division_unguarded [of "''now''" two_node_graph] n(5) l(5) by simp_all
  show ?thesis using w n d0 d1 d2 d3 d4 by simp
qed

lemma sanitize_dot: "sanitize CHR ''.'' = CHR ''_''" "sanitize CHR ''-'' = CHR ''_''"
  "sanitize CHR ''a'' = CHR ''a''" "sanitize CHR ''b'' = CHR ''b''"
  by (simp_all add: sanitize_def isAlnum_def isLower_def isUpper_def isDigit_def)

text \<open>
  Claim C10.  \<open>nodeId type name\<close> is \<open>type:name\<close> with every character of the name outside
  \<open>[a-zA-Z0-9]\<close> replaced by an underscore.  It is a function of its arguments, but not an
  injective one: the distinct names \<open>a.b\<close> and \<open>a-b\<close> get the same id, so two contributors
  (or two content paths) with these names end up as a single node of the graph.
\<close>

theorem nodeId_not_injective:
  "nodeId t n = t @ '':'' @ map (\<lambda>c. if isAlnum c then c else CHR ''_'') n
   \<and> ''a.b'' \<noteq> ''a-b''
   \<and> nodeId t ''a.b'' = nodeId t ''a-b''
   \<and> \<not> inj (nodeId t)
   \<and> map n_id (nodes (tryOps initial_graph
        [AddContributorNode \<lparr>c_name = ''a.b'', c_email = None, c_github = Some ''a.b'',
                             c_avatarUrl = None\<rparr>,
         AddContributorNode \<lparr>c_name = ''a-b'', c_email = None, c_github = Some ''a-b'',
                             c_avatarUrl = None\<rparr>])) = [''contributor:a_b'']
   \<and> map n_path (nodes (addContentNode (addContentNode initial_graph
        \<lparr>ct_path = ''a.b'', ct_title = None, ct_type = getFileType ''a.b''\<rparr>)
        \<lparr>ct_path = ''a-b'', ct_title = None, ct_type = getFileType ''a-b''\<rparr>)) = [Some ''a.b'']"
proof -
  have eq: "nodeId t ''a.b'' = nodeId t ''a-b''" for t
    by (simp add: nodeId_def sanitize_dot)
  have "\<not> inj (nodeId t)"
  proof
    assume "inj (nodeId t)"
    then have "''a.b'' = ''a-b''" using eq [of t] by (rule injD)
    then show False by simp
  qed
  moreover have "nodeId t n = t @ '':'' @ map (\<lambda>c. if isAlnum c then c else CHR ''_'') n"
    by (simp add: nodeId_def sanitize_def [abs_def])
  moreover have "map n_id (nodes (tryOps initial_graph
        [AddContributorNode \<lparr>c_name = ''a.b'', c_email = None, c_github = Some ''a.b'',
                             c_avatarUrl = None\<rparr>,
         AddContributorNode \<lparr>c_name = ''a-b'', c_email = None, c_github = Some ''a-b'',
                             c_avatarUrl = None\<rparr>])) = [''contributor:a_b'']"
    by (simp add: initial_graph_def addContributorNode_def name_or_github_def has_node_def
          nodeId_def sanitize_dot)
  moreover have "map n_path (nodes (addContentNode (addContentNode initial_graph
        \<lparr>ct_path = ''a.b'', ct_title = None, ct_type = getFileType ''a.b''\<rparr>)
        \<lparr>ct_path = ''a-b'', ct_title = None, ct_type = getFileType ''a-b''\<rparr>)) = [Some ''a.b'']"
    by (simp add: initial_graph_def addContentNode_def has_node_def nodeId_def sanitize_dot)
  ultimately show ?thesis using eq by simp
qed


lemma wf_graph_iff:
  "wf_graph g \<longleftrightarrow> (\<forall>l \<in> set (links g). has_node g (l_source l) \<and> has_node g (l_target l))"
  by (simp add: wf_graph_def list_all_iff)

lemma wf_covers:
  "wf_graph g \<Longrightarrow> covers h g \<Longrightarrow> links h = links g \<Longrightarrow> wf_graph h"
  by (simp add: wf_graph_iff covers_def)

lemma wf_addContentNode: "wf_graph g \<Longrightarrow> wf_graph (addContentNode g c)"
proof -
  assume "wf_graph g"
  moreover have "covers (addContentNode g c) g" by (rule addContentNode_covers)
  moreover have "links (addContentNode g c) = links g" by (simp add: addContentNode_def Let_def)
  ultimately show ?thesis by (rule wf_covers)
qed

lemma wf_addContributorNode:
  "wf_graph g \<Longrightarrow> addContributorNode g c = Some g' \<Longrightarrow> wf_graph g'"
proof -
  assume g: "wf_graph g" and a: "addContributorNode g c = Some g'"
  have "covers g' g" using a by (rule addContributorNode_covers)
  moreover have "links g' = links g"
    using a by (auto simp: addContributorNode_def Let_def split: option.splits if_splits)
  ultimately show ?thesis using g by (blast intro: wf_covers)
qed

lemma wf_addLink:
  "wf_graph g \<Longrightarrow> has_node g (l_source k) \<Longrightarrow> has_node g (l_target k) \<Longrightarrow>
   wf_graph (addLink g k)"
  by (auto simp: wf_graph_iff addLink_def has_node_def)

lemma wf_tryOps:
  "wf_graph g \<Longrightarrow> linked_ok S ops \<Longrightarrow> \<forall>i \<in> S. has_node g i \<Longrightarrow> wf_graph (tryOps g ops)"
proof (induction g ops arbitrary: S rule: tryOps.induct)
  case (1 g)
  then show ?case by simp
next
  case (2 g c ops)
  show ?case
  proof (cases "addContributorNode g c")
    case None
    then show ?thesis using "2.prems" by simp
  next
    case (Some g')
    then obtain nm where nm: "name_or_github c = Some nm"
      using addContributorNode_None [of g c] by (cases "name_or_github c") auto
    have "wf_graph g'" using "2.prems"(1) Some by (rule wf_addContributorNode)
    moreover have "linked_ok (insert (nodeId ''contributor'' nm) S) ops"
      using "2.prems"(2) nm by simp
    moreover have "\<forall>i \<in> insert (nodeId ''contributor'' nm) S. has_node g' i"
      using "2.prems"(3) addContributorNode_has [OF Some nm] addContributorNode_covers [OF Some]
      by (auto simp: covers_def)
    ultimately have "wf_graph (tryOps g' ops)" using "2.IH" [OF Some] by blast
    then show ?thesis using Some by simp
  qed
next
  case (3 g c ops)
  have "wf_graph (addContentNode g c)" using "3.prems"(1) by (rule wf_addContentNode)
  moreover have "linked_ok (insert (nodeId ''content'' (ct_path c)) S) ops"
    using "3.prems"(2) by simp
  moreover have "\<forall>i \<in> insert (nodeId ''content'' (ct_path c)) S. has_node (addContentNode g c) i"
    using "3.prems"(3) addContentNode_has [of g c] addContentNode_covers [of g c]
    by (auto simp: covers_def)
  ultimately have "wf_graph (tryOps (addContentNode g c) ops)" using "3.IH" by blast
  then show ?case by simp
next
  case (4 g k ops)
  have "wf_graph (addLink g k)" using "4.prems" by (auto intro: wf_addLink)
  moreover have "\<forall>i \<in> S. has_node (addLink g k) i"
    using "4.prems"(3) addLink_covers [of g k] by (auto simp: covers_def)
  ultimately have "wf_graph (tryOps (addLink g k) ops)" using "4.IH" "4.prems"(2) by auto
  then show ?case by simp
next
  case (5 g ops)
  then show ?case by simp
qed

lemma linked_ok_mono: "linked_ok S ops \<Longrightarrow> S \<subseteq> T \<Longrightarrow> linked_ok T ops"
proof (induction S ops arbitrary: T rule: linked_ok.induct)
  case (2 S c ops)
  show ?case
  proof (cases "name_or_github c")
    case None
    then show ?thesis by simp
  next
    case (Some nm)
    have "insert (nodeId ''contributor'' nm) S \<subseteq> insert (nodeId ''contributor'' nm) T"
      using "2.prems"(2) by (rule insert_mono)
    then show ?thesis using "2.IH" [OF Some] "2.prems"(1) Some by simp
  qed
next
  case (3 S c ops)
  have "insert (nodeId ''content'' (ct_path c)) S \<subseteq> insert (nodeId ''content'' (ct_path c)) T"
    using "3.prems"(2) by (rule insert_mono)
  then show ?case using "3.IH" "3.prems"(1) by simp
qed auto

lemma linked_ok_append:
  "linked_ok S a \<Longrightarrow> (\<And>T. S \<subseteq> T \<Longrightarrow> linked_ok T b) \<Longrightarrow> linked_ok S (a @ b)"
proof (induction S a rule: linked_ok.induct)
  case (1 S)
  have "linked_ok S b" by (rule "1.prems"(2)) simp
  then show ?case by simp
next
  case (2 S c ops)
  show ?case
  proof (cases "name_or_github c")
    case None
    then show ?thesis by simp
  next
    case (Some nm)
    have "linked_ok (insert (nodeId ''contributor'' nm) S) (ops @ b)"
    proof (rule "2.IH" [OF Some])
      show "linked_ok (insert (nodeId ''contributor'' nm) S) ops"
        using "2.prems"(1) Some by simp
      show "linked_ok T b" if "insert (nodeId ''contributor'' nm) S \<subseteq> T" for T
        by (rule "2.prems"(2)) (use that in blast)
    qed
    then show ?thesis using Some by simp
  qed
next
  case (3 S c ops)
  have "linked_ok (insert (nodeId ''content'' (ct_path c)) S) (ops @ b)"
  proof (rule "3.IH")
    show "linked_ok (insert (nodeId ''content'' (ct_path c)) S) ops"
      using "3.prems"(1) by simp
    show "linked_ok T b" if "insert (nodeId ''content'' (ct_path c)) S \<subseteq> T" for T
      by (rule "3.prems"(2)) (use that in blast)
  qed
  then show ?case by simp
next
  case (4 S k ops)
  have "linked_ok S (ops @ b)"
  proof (rule "4.IH")
    show "linked_ok S ops" using "4.prems"(1) by simp
    show "linked_ok T b" if "S \<subseteq> T" for T by (rule "4.prems"(2)) (rule that)
  qed
  then show ?case using "4.prems"(1) by simp
next
  case (5 S ops)
  then show ?case by simp
qed

lemma linked_ok_concat:
  "(\<And>x T. x \<in> set xs \<Longrightarrow> S \<subseteq> T \<Longrightarrow> linked_ok T (f x)) \<Longrightarrow>
   linked_ok S (concat (map f xs))"
proof (induction xs)
  case Nil
  then show ?case by simp
next
  case (Cons x xs)
  have "linked_ok S (f x)" by (rule Cons.prems) simp_all
  moreover have "linked_ok T (concat (map f xs))" if "S \<subseteq> T" for T
  proof (rule linked_ok_mono [OF _ that])
    show "linked_ok S (concat (map f xs))"
    proof (rule Cons.IH)
      show "linked_ok T (f y)" if "y \<in> set xs" "S \<subseteq> T" for y T
        by (rule Cons.prems) (use that in simp_all)
    qed
  qed
  ultimately have "linked_ok S (f x @ concat (map f xs))" by (rule linked_ok_append)
  then show ?case by simp
qed

lemma fileOps_linked:
  "nodeId ''contributor'' (cm_author c) \<in> T \<Longrightarrow> linked_ok T (fileOps f c x)"
  by (simp add: fileOps_def split: option.splits)

lemma commitOps_linked: "linked_ok T (commitOps f c)"
proof (cases "cm_author c = []")
  case True
  then show ?thesis by (simp add: commitOps_def name_or_github_def)
next
  case False
  have "linked_ok (insert (nodeId ''contributor'' (cm_author c)) T)
          (concat (map (fileOps f c) (cm_files c)))"
    by (rule linked_ok_concat) (auto intro: fileOps_linked)
  then show ?thesis using False by (simp add: commitOps_def name_or_github_def)
qed

lemma commentOps_linked: "nodeId ''content'' p \<in> T \<Longrightarrow> linked_ok T (commentOps p c)"
  by (simp add: commentOps_def name_or_github_def)

lemma commentsOps_linked:
  assumes "nodeId ''content'' p \<in> T"
  shows "linked_ok T (commentsOps p cs)"
proof (cases cs)
  case Failed
  then show ?thesis by (simp add: commentsOps_def)
next
  case (Fetched xs)
  have "linked_ok T (concat (map (commentOps p) xs))"
    by (rule linked_ok_concat) (use assms in \<open>auto intro: commentOps_linked\<close>)
  then show ?thesis using Fetched by (simp add: commentsOps_def)
qed

lemma reviewOps_linked: "nodeId ''content'' p \<in> T \<Longrightarrow> linked_ok T (reviewOps p c)"
  by (simp add: reviewOps_def name_or_github_def)

lemma reviewsOps_linked:
  assumes "nodeId ''content'' p \<in> T"
  shows "linked_ok T (reviewsOps p cs)"
proof (cases cs)
  case Failed
  then show ?thesis by (simp add: reviewsOps_def)
next
  case (Fetched xs)
  have "linked_ok T (concat (map (reviewOps p) xs))"
    by (rule linked_ok_concat) (use assms in \<open>auto intro: reviewOps_linked\<close>)
  then show ?thesis using Fetched by (simp add: reviewsOps_def)
qed

lemma issueOps_linked: "linked_ok T (issueOps i)"
  by (simp add: issueOps_def Let_def name_or_github_def commentsOps_linked)

lemma name_or_github_login [simp]:
  "name_or_github \<lparr>c_name = x, c_email = e, c_github = Some x, c_avatarUrl = a\<rparr> = Some x"
  by (simp add: name_or_github_def)

lemma pullOps_linked: "linked_ok T (pullOps pr)"
proof -
  define p where "p = ''pulls/'' @ string_of_nat (p_number pr)"
  define T' where "T' = insert (nodeId ''content'' p) (insert (nodeId ''contributor'' (p_login pr)) T)"
  have "linked_ok T' (reviewsOps p (p_reviews pr))"
    by (rule reviewsOps_linked) (simp add: T'_def)
  moreover have "linked_ok U (commentsOps p (p_comments pr))" if "T' \<subseteq> U" for U
    by (rule commentsOps_linked) (use that in \<open>auto simp: T'_def\<close>)
  ultimately have "linked_ok T' (reviewsOps p (p_reviews pr) @ commentsOps p (p_comments pr))"
    by (rule linked_ok_append)
  then show ?thesis
    by (simp add: pullOps_def Let_def p_def T'_def)
qed

lemma wf_tryOps_blocks:
  assumes "wf_graph g" and "\<And>x T. linked_ok T (f x)"
  shows "wf_graph (tryOps g (concat (map f xs)))"
proof (rule wf_tryOps [where S = "{}"])
  show "wf_graph g" by fact
  show "linked_ok {} (concat (map f xs))" by (rule linked_ok_concat) (rule assms(2))
  show "\<forall>i\<in>{}. has_node g i" by simp
qed

lemma wf_calculateAttributionMetrics:
  "wf_graph g \<Longrightarrow> wf_graph (calculateAttributionMetrics now g)"
  by (simp add: wf_graph_iff)

lemma wf_initial_graph: "wf_graph initial_graph"
  by (simp add: wf_graph_def initial_graph_def)

lemma wf_mapCode: "wf_graph g \<Longrightarrow> wf_graph (mapCodeContributions f g l)"
  by (cases l) (simp_all add: mapCodeContributions_def wf_tryOps_blocks commitOps_linked)

lemma wf_mapIssue: "wf_graph g \<Longrightarrow> wf_graph (mapIssueContributions g l)"
  by (cases l) (simp_all add: mapIssueContributions_def wf_tryOps_blocks issueOps_linked)

lemma wf_mapPR: "wf_graph g \<Longrightarrow> wf_graph (mapPRContributions g l)"
  by (cases l) (simp_all add: mapPRContributions_def wf_tryOps_blocks pullOps_linked)

lemma wf_generateAttributionMap:
  "wf_graph g \<Longrightarrow> wf_graph (generateAttributionMap f now g ev)"
  by (simp add: generateAttributionMap_def mapDiscussionContributions_def
        wf_calculateAttributionMetrics wf_mapCode wf_mapIssue wf_mapPR)

section \<open>Properties of the residue catalog (residue-analysis.js)\<close>


lemma residue_exists_iff:
  "list_ex (\<lambda>existing. ri_description existing = ri_description i \<and>
                        ri_section existing = ri_section i) xs
   \<longleftrightarrow> residue_key i \<in> set (map residue_key xs)"
  by (induction xs) (auto simp: residue_key_def)

lemma addResidueInstance_keys:
  "map residue_key (instances (addResidueInstance c i)) =
     (if residue_key i \<in> set (map residue_key (instances c)) then map residue_key (instances c)
      else map residue_key (instances c) @ [residue_key i])"
  by (simp add: addResidueInstance_def Let_def residue_exists_iff)

lemma addResidueInstance_existing:
  "residue_key i \<in> set (map residue_key (instances c)) \<Longrightarrow> addResidueInstance c i = c"
  by (simp add: addResidueInstance_def Let_def residue_exists_iff)

lemma addResidueInstance_distinct:
  "distinct (map residue_key (instances c)) \<Longrightarrow>
   distinct (map residue_key (instances (addResidueInstance c i)))"
  by (simp add: addResidueInstance_keys)

lemma addResidueInstance_has:
  "residue_key i \<in> set (map residue_key (instances (addResidueInstance c i)))"
  by (simp add: addResidueInstance_keys)

lemma addResidueInstance_mono:
  "set (map residue_key (instances c)) \<subseteq> set (map residue_key (instances (addResidueInstance c i)))"
  by (auto simp: addResidueInstance_keys)

lemma addResidueInstances_mono:
  "set (map residue_key (instances c)) \<subseteq> set (map residue_key (instances (addResidueInstances c xs)))"
  unfolding addResidueInstances_def
proof (induction xs arbitrary: c)
  case Nil
  then show ?case by simp
next
  case (Cons x xs)
  show ?case using addResidueInstance_mono [of c x] Cons [of "addResidueInstance c x"] by auto
qed

lemma addResidueInstances_has:
  "set (map residue_key xs) \<subseteq> set (map residue_key (instances (addResidueInstances c xs)))"
proof (induction xs arbitrary: c)
  case Nil
  then show ?case by simp
next
  case (Cons x xs)
  have "residue_key x \<in> set (map residue_key (instances (addResidueInstance c x)))"
    by (rule addResidueInstance_has)
  then have "residue_key x \<in> set (map residue_key (instances (addResidueInstances (addResidueInstance c x) xs)))"
    using addResidueInstances_mono by blast
  then show ?case using Cons [of "addResidueInstance c x"]
    by (simp add: addResidueInstances_def)
qed

lemma addResidueInstances_absorbed:
  "set (map residue_key ys) \<subseteq> set (map residue_key (instances c)) \<Longrightarrow>
   addResidueInstances c ys = c"
  by (induction ys) (simp_all add: addResidueInstances_def addResidueInstance_existing)

lemma addResidueInstances_distinct:
  "distinct (map residue_key (instances c)) \<Longrightarrow>
   distinct (map residue_key (instances (addResidueInstances c xs)))"
  unfolding addResidueInstances_def
  by (induction xs arbitrary: c) (simp_all add: addResidueInstance_distinct)

text \<open>
  Claim C5.  \<open>addResidueInstance\<close> keeps the invariant that no two entries of the catalog have
  the same pair \<open>(description, section)\<close>: a catalog without such duplicates has none after
  the call, and an instance whose pair is already stored leaves the catalog as it is.  The
  same holds for a whole run; and a second run that offers instances with the same pairs as
  the first (the same text, whatever the fresh ids and detection times) stores nothing.
\<close>

theorem residue_catalog_no_duplicates:
  assumes "distinct (map residue_key (instances c))"
  shows "distinct (map residue_key (instances (addResidueInstance c i)))
    \<and> (residue_key i \<in> set (map residue_key (instances c)) \<longrightarrow> addResidueInstance c i = c)
    \<and> distinct (map residue_key (instances (addResidueInstances c xs)))
    \<and> (map residue_key ys = map residue_key xs \<longrightarrow>
         addResidueInstances (addResidueInstances c xs) ys = addResidueInstances c xs)"
proof -
  have "addResidueInstances (addResidueInstances c xs) ys = addResidueInstances c xs"
    if "map residue_key ys = map residue_key xs"
    by (rule addResidueInstances_absorbed) (use that addResidueInstances_has [of xs c] in simp)
  then show ?thesis
    using assms addResidueInstance_distinct addResidueInstance_existing
      addResidueInstances_distinct by blast
qed

theorem residue_catalog_no_duplicates_witness:
  "distinct (map residue_key (instances \<lparr>instances = [example_residue ''r1''], meta_count = 1\<rparr>))
   \<and> residue_key (example_residue ''r2'') \<in>
       set (map residue_key (instances \<lparr>instances = [example_residue ''r1''], meta_count = 1\<rparr>))
   \<and> example_residue ''r2'' \<noteq> example_residue ''r1''
   \<and> addResidueInstance \<lparr>instances = [example_residue ''r1''], meta_count = 1\<rparr>
        (example_residue ''r2'') = \<lparr>instances = [example_residue ''r1''], meta_count = 1\<rparr>
   \<and> map residue_key [example_residue ''r2''] = map residue_key [example_residue ''r1'']
   \<and> addResidueInstances
        (addResidueInstances \<lparr>instances = [], meta_count = 0\<rparr> [example_residue ''r1''])
        [example_residue ''r2''] =
       addResidueInstances \<lparr>instances = [], meta_count = 0\<rparr> [example_residue ''r1'']"
proof -
  have k: "residue_key (example_residue ''r2'') = residue_key (example_residue ''r1'')"
    by (simp add: residue_key_def example_residue_def)
  have n: "example_residue ''r2'' \<noteq> example_residue ''r1''"
    by (simp add: example_residue_def)
  show ?thesis
    using k n
      residue_catalog_no_duplicates
        [of "\<lparr>instances = [example_residue ''r1''], meta_count = 1\<rparr>" "example_residue ''r2''" "[]" "[]"]
      residue_catalog_no_duplicates
        [of "\<lparr>instances = [], meta_count = 0\<rparr>" "example_residue ''r1''"
            "[example_residue ''r1'']" "[example_residue ''r2'']"]
    by simp
qed

section \<open>Properties of the coherence history (coherence-report.js)\<close>

lemma set_js_insert [simp]: "set (js_insert cmp x ys) = insert x (set ys)"
  by (induction ys) auto

lemma mset_js_insert [simp]: "mset (js_insert cmp x ys) = add_mset x (mset ys)"
  by (induction ys) auto

lemma mset_js_sort [simp]: "mset (js_sort cmp xs) = mset xs"
  by (induction xs) (simp_all add: js_sort_def)

lemma sorted_js_insert:
  "sorted_wrt (\<lambda>a b. e_timestamp a \<le> e_timestamp b) ys \<Longrightarrow>
   sorted_wrt (\<lambda>a b. e_timestamp a \<le> e_timestamp b)
     (js_insert (\<lambda>a b. e_timestamp a - e_timestamp b) x ys)"
  by (induction ys) auto

lemma sorted_js_sort:
  "sorted_wrt (\<lambda>a b. e_timestamp a \<le> e_timestamp b)
     (js_sort (\<lambda>a b. e_timestamp a - e_timestamp b) xs)"
  by (induction xs) (simp_all add: js_sort_def sorted_js_insert)

lemma sorted_partition:
  "sorted_wrt (\<lambda>a b. e_timestamp a \<le> e_timestamp b) es \<Longrightarrow>
   filter (\<lambda>e. e_timestamp e < p) es @ filter (\<lambda>e. e_timestamp e \<ge> p) es = es"
proof (induction es)
  case Nil
  then show ?case by simp
next
  case (Cons e es)
  show ?case
  proof (cases "e_timestamp e < p")
    case True
    then show ?thesis using Cons by simp
  next
    case False
    then have "\<forall>x \<in> set es. \<not> e_timestamp x < p" using Cons.prems by auto
    then have "filter (\<lambda>e. e_timestamp e < p) es = []" "filter (\<lambda>e. e_timestamp e \<ge> p) es = es"
      by (auto simp: filter_empty_conv filter_id_conv)
    then show ?thesis using False by simp
  qed
qed

lemma history_unsorted_example:
  "map e_timestamp (entries (addToCoherenceHistory ''now''
     \<lparr>entries = [\<lparr>e_timestamp = 30, e_overallScore = 1, e_components = [], e_details = []\<rparr>,
                 \<lparr>e_timestamp = 10, e_overallScore = 1, e_components = [], e_details = []\<rparr>],
      h_lastUpdated = None, h_entryCount = None\<rparr>
     \<lparr>e_timestamp = 20, e_overallScore = 1, e_components = [], e_details = []\<rparr>)) = [10, 20, 30]"
  by code_simp

text \<open>
  Claim C8.  After \<open>addToCoherenceHistory\<close> the entries are sorted by ascending timestamp,
  whatever the order of the entries before; they are the old entries and the new one, and the
  two filters of the period report split the sorted list into the entries before the start of
  the period followed by the entries of the period.
\<close>

theorem history_sorted_after_append:
  "sorted_wrt (\<lambda>a b. e_timestamp a \<le> e_timestamp b) (entries (addToCoherenceHistory now h cur))
   \<and> mset (entries (addToCoherenceHistory now h cur)) = add_mset cur (mset (entries h))
   \<and> h_entryCount (addToCoherenceHistory now h cur) = Some (length (entries h) + 1)
   \<and> previousEntries p (addToCoherenceHistory now h cur) @
       periodEntries p (addToCoherenceHistory now h cur) =
     entries (addToCoherenceHistory now h cur)"
proof -
  let ?es = "entries (addToCoherenceHistory now h cur)"
  have s: "sorted_wrt (\<lambda>a b. e_timestamp a \<le> e_timestamp b) ?es"
    by (simp add: addToCoherenceHistory_def Let_def sorted_js_sort)
  have m: "mset ?es = add_mset cur (mset (entries h))"
    by (simp add: addToCoherenceHistory_def Let_def)
  have "size (mset ?es) = size (add_mset cur (mset (entries h)))" using m by simp
  then have l: "length ?es = length (entries h) + 1" by simp
  have c: "h_entryCount (addToCoherenceHistory now h cur) = Some (length ?es)"
    by (simp add: addToCoherenceHistory_def Let_def)
  show ?thesis
    using s m c l sorted_partition [OF s, of p]
    by (simp add: previousEntries_def periodEntries_def)
qed

section \<open>Properties of the signal-alignment factors (coherence-check.js)\<close>

lemma claims_result_score:
  "cl_score (claims_result t u) = 1 - min 1 (2 * cl_unsupportedRate (claims_result t u))"
proof -
  define r where "r = (if t > 0 then real u / real t else 0)"
  have "0 \<le> r" by (simp add: r_def)
  then have "max 0 (min 1 (1 - min 1 (r * 2))) = 1 - min 1 (2 * r)" by (simp add: min_def max_def)
  then show ?thesis by (simp add: claims_result_def Let_def r_def)
qed

lemma claims_result_scenario:
  "cl_unsupportedRate (claims_result 10 7) = 7 / 10 \<and> cl_score (claims_result 10 7) = 0"
  by (simp add: claims_result_def Let_def)

text \<open>
  Claim C3.  The score is computed from the two counters as the claim says
  (\<open>claims_result_score\<close>, \<open>claims_result_scenario\<close>), but the counters are not the ones the claim
  describes.  In the article \<open>Work [^1] shows. It shows\<close> both sentences contain the word
  \<open>shows\<close> and the second one has no citation marker and no following sentence; the loop counts
  one claim and no unsupported one and returns the score 1, where the description gives two
  claims, one of them unsupported, and the score 0.  In the article
  \<open>It shows. See [^1]. It shows. End\<close> the third sentence is followed by a sentence without a
  marker, yet it is counted as supported.
\<close>

theorem findUnsupportedClaims_misses_claims:
  "split_sentences (a_content two_claims) = [''Work [^1] shows'', ''It shows'']
   \<and> contains_word claim_at ''Work [^1] shows''
   \<and> contains_word claim_at ''It shows''
   \<and> \<not> citation_test ''It shows''
   \<and> findUnsupportedClaims [two_claims] =
        \<lparr>cl_totalClaims = 1, cl_unsupportedClaims = 0, cl_unsupportedRate = 0, cl_score = 1\<rparr>
   \<and> described_findUnsupportedClaims [two_claims] =
        \<lparr>cl_totalClaims = 2, cl_unsupportedClaims = 1, cl_unsupportedRate = 1 / 2, cl_score = 0\<rparr>
   \<and> split_sentences (a_content repeated_claim) =
        [''It shows'', ''See [^1]'', ''It shows'', ''End'']
   \<and> \<not> citation_test ''End''
   \<and> findUnsupportedClaims [repeated_claim] =
        \<lparr>cl_totalClaims = 2, cl_unsupportedClaims = 0, cl_unsupportedRate = 0, cl_score = 1\<rparr>
   \<and> described_findUnsupportedClaims [repeated_claim] =
        \<lparr>cl_totalClaims = 2, cl_unsupportedClaims = 1, cl_unsupportedRate = 1 / 2, cl_score = 0\<rparr>"
  by code_simp

lemma citation_score_formula:
  "ca_score (analyzeArticleCitations as) =
     (if ca_paragraphs (analyzeArticleCitations as) > 0
      then min 1 ((real (ca_citations (analyzeArticleCitations as)) /
                   real (ca_paragraphs (analyzeArticleCitations as))) / 0.5)
      else 0)"
  by (simp add: analyzeArticleCitations_def Let_def min_def max_def)

lemma citation_score_mono:
  assumes "ca_paragraphs (analyzeArticleCitations as) = ca_paragraphs (analyzeArticleCitations bs)"
      and "ca_citations (analyzeArticleCitations as) \<le> ca_citations (analyzeArticleCitations bs)"
  shows "ca_score (analyzeArticleCitations as) \<le> ca_score (analyzeArticleCitations bs)"
proof -
  define p where "p = ca_paragraphs (analyzeArticleCitations bs)"
  define a where "a = ca_citations (analyzeArticleCitations as)"
  define b where "b = ca_citations (analyzeArticleCitations bs)"
  define x where "x = (real a / real p) / 0.5"
  define y where "y = (real b / real p) / 0.5"
  have "real a / real p \<le> real b / real p"
    using assms(2) by (simp add: divide_right_mono a_def b_def)
  then have "x \<le> y" unfolding x_def y_def by (rule divide_right_mono) simp
  then have "min 1 x \<le> min 1 y" by linarith
  then show ?thesis
    unfolding citation_score_formula [of as] citation_score_formula [of bs] assms(1)
    by (simp add: x_def y_def a_def b_def p_def)
qed

text \<open>
  Claim C6.  With the paragraph count and the other three factor scores (unsupported claims,
  data integrity, code consistency) unchanged, more citation markers never lower the citation
  score nor the signal-alignment score.  For a document with paragraphs the citation score is
  \<open>min(1, (citations / paragraphs) / 0.5)\<close>, and with 5 markers over 10 paragraphs the density
  is 0.5 and the score is 1.
\<close>

theorem citations_never_lower_signal_alignment:
  assumes "ca_paragraphs (analyzeArticleCitations as) = ca_paragraphs (analyzeArticleCitations bs)"
      and "ca_citations (analyzeArticleCitations as) \<le> ca_citations (analyzeArticleCitations bs)"
      and "cl_score (findUnsupportedClaims as) = cl_score (findUnsupportedClaims bs)"
      and "analyzeDataIntegrity fa = analyzeDataIntegrity fb"
      and "evaluateCodeConsistency fa = evaluateCodeConsistency fb"
  shows "ca_score (analyzeArticleCitations as) \<le> ca_score (analyzeArticleCitations bs)
    \<and> score (calculateSignalAlignment as fa) \<le> score (calculateSignalAlignment bs fb)
    \<and> (0 < ca_paragraphs (analyzeArticleCitations bs) \<longrightarrow>
         ca_score (analyzeArticleCitations bs) =
           min 1 ((real (ca_citations (analyzeArticleCitations bs)) /
                   real (ca_paragraphs (analyzeArticleCitations bs))) / 0.5))
    \<and> (ca_citations (analyzeArticleCitations bs) = 5 \<and>
        ca_paragraphs (analyzeArticleCitations bs) = 10 \<longrightarrow>
         ca_density (analyzeArticleCitations bs) = 0.5 \<and>
         ca_score (analyzeArticleCitations bs) = 1)"
proof -
  have m: "ca_score (analyzeArticleCitations as) \<le> ca_score (analyzeArticleCitations bs)"
    using assms(1,2) by (rule citation_score_mono)
  have s: "score (calculateSignalAlignment as fa) \<le> score (calculateSignalAlignment bs fb)"
    using m assms(3,4,5) by (simp add: calculateSignalAlignment_def Let_def)
  have d: "ca_density (analyzeArticleCitations bs) = 0.5"
    if "ca_citations (analyzeArticleCitations bs) = 5" "ca_paragraphs (analyzeArticleCitations bs) = 10"
    using that by (simp add: analyzeArticleCitations_def Let_def)
  show ?thesis
    using m s d citation_score_formula [of bs] by auto
qed

lemma ten_paragraphs_values:
  "analyzeArticleCitations [ten_paragraphs 4] =
     \<lparr>ca_citations = 4, ca_paragraphs = 10, ca_density = 2 / 5, ca_score = 4 / 5\<rparr>
   \<and> analyzeArticleCitations [ten_paragraphs 5] =
     \<lparr>ca_citations = 5, ca_paragraphs = 10, ca_density = 1 / 2, ca_score = 1\<rparr>
   \<and> findUnsupportedClaims [ten_paragraphs 4] =
     \<lparr>cl_totalClaims = 0, cl_unsupportedClaims = 0, cl_unsupportedRate = 0, cl_score = 1\<rparr>
   \<and> findUnsupportedClaims [ten_paragraphs 5] =
     \<lparr>cl_totalClaims = 0, cl_unsupportedClaims = 0, cl_unsupportedRate = 0, cl_score = 1\<rparr>"
  by code_simp

theorem citations_never_lower_signal_alignment_witness:
  "ca_paragraphs (analyzeArticleCitations [ten_paragraphs 4]) = 10
   \<and> ca_paragraphs (analyzeArticleCitations [ten_paragraphs 5]) = 10
   \<and> ca_citations (analyzeArticleCitations [ten_paragraphs 4]) = 4
   \<and> ca_citations (analyzeArticleCitations [ten_paragraphs 5]) = 5
   \<and> ca_score (analyzeArticleCitations [ten_paragraphs 4]) = 4 / 5
   \<and> ca_score (analyzeArticleCitations [ten_paragraphs 5]) = 1
   \<and> ca_density (analyzeArticleCitations [ten_paragraphs 5]) = 0.5
   \<and> score (calculateSignalAlignment [ten_paragraphs 4]
              \<lparr>dataFiles = 0, hasDataReadme = False, codeFiles = 0, resultFiles = 0\<rparr>)
       \<le> score (calculateSignalAlignment [ten_paragraphs 5]
                \<lparr>dataFiles = 0, hasDataReadme = False, codeFiles = 0, resultFiles = 0\<rparr>)"
  using citations_never_lower_signal_alignment
          [of "[ten_paragraphs 4]" "[ten_paragraphs 5]"
              "\<lparr>dataFiles = 0, hasDataReadme = False, codeFiles = 0, resultFiles = 0\<rparr>"
              "\<lparr>dataFiles = 0, hasDataReadme = False, codeFiles = 0, resultFiles = 0\<rparr>"]
        ten_paragraphs_values
  by simp


section \<open>Properties of the feedback analyses (coherence-check.js)\<close>


lemma count_responses_fails:
  "list_ex (\<lambda>i. oi_comments i = Failed) xs \<Longrightarrow> count_responses owner xs = None"
  by (induction xs) (auto simp: Let_def split: fetch.splits)

lemma open_issues_neutral:
  "open_issues_fetch_fails p \<Longrightarrow>
   analyzeOpenIssues (pl_owner p) (pl_openIssues p) =
     \<lparr>openIssueCount = 0, issuesWithResponses = 0, responseRate = 1, oi_score = 0.5\<rparr>"
  by (auto simp: open_issues_fetch_fails_def analyzeOpenIssues_def analyzeOpenIssues_try_def
        count_responses_fails split: fetch.splits)

lemma closed_issues_neutral:
  "closed_issues_fetch_fails p \<Longrightarrow>
   analyzeIssueResolution (pl_closedIssues p) =
     \<lparr>closedIssueCount = 0, issuesWithReferences = 0, resolutionRate = 1, ir_score = 0.5\<rparr>"
  by (simp add: closed_issues_fetch_fails_def analyzeIssueResolution_def
        analyzeIssueResolution_try_def)

lemma count_reviews_fails:
  "list_ex pull_fetch_fails xs \<Longrightarrow> count_reviews acc xs = None"
proof (induction acc xs rule: count_reviews.induct)
  case (1 withComments withChanges)
  then show ?case by simp
next
  case (2 withComments withChanges pr rest)
  show ?case
  proof (cases "cp_reviewComments pr")
    case Failed
    then show ?thesis by simp
  next
    case (Fetched created)
    show ?thesis
    proof (cases "created = []")
      case True
      then have "\<not> pull_fetch_fails pr" using Fetched by (simp add: pull_fetch_fails_def)
      then have "list_ex pull_fetch_fails rest" using "2.prems" by simp
      then have "count_reviews (withComments, withChanges) rest = None"
        using "2.IH"(2) Fetched True by simp
      then show ?thesis using Fetched True by simp
    next
      case False
      show ?thesis
      proof (cases "cp_commits pr")
        case Failed
        then show ?thesis using Fetched False by simp
      next
        case commits: (Fetched dates)
        then have "\<not> pull_fetch_fails pr" using Fetched by (simp add: pull_fetch_fails_def)
        then have r: "list_ex pull_fetch_fails rest" using "2.prems" by simp
        have "count_reviews
                (withComments + 1,
                 if length (filter (\<lambda>d. d > Min (set created)) dates) > 0
                 then withChanges + 1 else withChanges) rest = None"
          using "2.IH"(1) [OF Fetched _ commits refl refl r] False by simp
        then show ?thesis using Fetched False commits by (simp add: Let_def)
      qed
    qed
  qed
qed

lemma pulls_neutral:
  "pulls_fetch_fails p \<Longrightarrow>
   analyzePRReviews (pl_closedPulls p) =
     \<lparr>mergedPRCount = 0, prsWithReviewComments = 0, prsWithChangesAfterReview = 0,
      integrationRate = 1, pr_score = 0.5\<rparr>"
  by (auto simp: pulls_fetch_fails_def analyzePRReviews_def analyzePRReviews_try_def
        count_reviews_fails split: fetch.splits)

lemma feedback_score:
  "score (calculateFeedbackResponsiveness p) =
     oi_score (analyzeOpenIssues (pl_owner p) (pl_openIssues p)) * 0.2
     + ir_score (analyzeIssueResolution (pl_closedIssues p)) * 0.3
     + pr_score (analyzePRReviews (pl_closedPulls p)) * 0.3
     + ch_score (analyzeContentHistory (pl_gitlog p)) * 0.2"
  by (simp add: calculateFeedbackResponsiveness_def Let_def)

text \<open>
  Claim C4.  When a fetch of the open-issue analysis, of the issue-resolution analysis or of
  the pull-request analysis fails (the list itself, or one of the per-item fetches the
  analysis makes), the \<open>catch\<close> of that analysis returns the score 0.5; the feedback component
  is still computed, as the weighted sum in which the other three factors are what their own
  data gives.  The analyses are total functions: none of them can end the run, and whether
  a run ends in the \<open>catch\<close> of \<open>checkCoherence\<close> does not depend on what the platform returns.
\<close>

theorem feedback_fetch_failure_is_neutral:
  "(open_issues_fetch_fails p \<longrightarrow>
      oi_score (analyzeOpenIssues (pl_owner p) (pl_openIssues p)) = 0.5
      \<and> score (calculateFeedbackResponsiveness p) =
          0.5 * 0.2
          + ir_score (analyzeIssueResolution (pl_closedIssues p)) * 0.3
          + pr_score (analyzePRReviews (pl_closedPulls p)) * 0.3
          + ch_score (analyzeContentHistory (pl_gitlog p)) * 0.2)
   \<and> (closed_issues_fetch_fails p \<longrightarrow>
      ir_score (analyzeIssueResolution (pl_closedIssues p)) = 0.5
      \<and> score (calculateFeedbackResponsiveness p) =
          oi_score (analyzeOpenIssues (pl_owner p) (pl_openIssues p)) * 0.2
          + 0.5 * 0.3
          + pr_score (analyzePRReviews (pl_closedPulls p)) * 0.3
          + ch_score (analyzeContentHistory (pl_gitlog p)) * 0.2)
   \<and> (pulls_fetch_fails p \<longrightarrow>
      pr_score (analyzePRReviews (pl_closedPulls p)) = 0.5
      \<and> score (calculateFeedbackResponsiveness p) =
          oi_score (analyzeOpenIssues (pl_owner p) (pl_openIssues p)) * 0.2
          + ir_score (analyzeIssueResolution (pl_closedIssues p)) * 0.3
          + 0.5 * 0.3
          + ch_score (analyzeContentHistory (pl_gitlog p)) * 0.2)
   \<and> factors (calculateFeedbackResponsiveness p) =
        [oi_score (analyzeOpenIssues (pl_owner p) (pl_openIssues p)),
         ir_score (analyzeIssueResolution (pl_closedIssues p)),
         pr_score (analyzePRReviews (pl_closedPulls p)),
         ch_score (analyzeContentHistory (pl_gitlog p))]
   \<and> (checkCoherence eng (r\<lparr>repo_platform := p\<rparr>) = Errored) =
       (checkCoherence eng r = Errored)"
proof (intro conjI impI)
  assume "open_issues_fetch_fails p"
  then show a: "oi_score (analyzeOpenIssues (pl_owner p) (pl_openIssues p)) = 0.5"
    using open_issues_neutral [of p] by simp
  show "score (calculateFeedbackResponsiveness p) =
          0.5 * 0.2
          + ir_score (analyzeIssueResolution (pl_closedIssues p)) * 0.3
          + pr_score (analyzePRReviews (pl_closedPulls p)) * 0.3
          + ch_score (analyzeContentHistory (pl_gitlog p)) * 0.2"
    unfolding feedback_score a by (rule refl)
next
  assume "closed_issues_fetch_fails p"
  then show b: "ir_score (analyzeIssueResolution (pl_closedIssues p)) = 0.5"
    using closed_issues_neutral [of p] by simp
  show "score (calculateFeedbackResponsiveness p) =
          oi_score (analyzeOpenIssues (pl_owner p) (pl_openIssues p)) * 0.2
          + 0.5 * 0.3
          + pr_score (analyzePRReviews (pl_closedPulls p)) * 0.3
          + ch_score (analyzeContentHistory (pl_gitlog p)) * 0.2"
    unfolding feedback_score b by (rule refl)
next
  assume "pulls_fetch_fails p"
  then show c: "pr_score (analyzePRReviews (pl_closedPulls p)) = 0.5"
    using pulls_neutral [of p] by simp
  show "score (calculateFeedbackResponsiveness p) =
          oi_score (analyzeOpenIssues (pl_owner p) (pl_openIssues p)) * 0.2
          + ir_score (analyzeIssueResolution (pl_closedIssues p)) * 0.3
          + 0.5 * 0.3
          + ch_score (analyzeContentHistory (pl_gitlog p)) * 0.2"
    unfolding feedback_score c by (rule refl)
next
  show "factors (calculateFeedbackResponsiveness p) =
        [oi_score (analyzeOpenIssues (pl_owner p) (pl_openIssues p)),
         ir_score (analyzeIssueResolution (pl_closedIssues p)),
         pr_score (analyzePRReviews (pl_closedPulls p)),
         ch_score (analyzeContentHistory (pl_gitlog p))]"
    by (simp add: calculateFeedbackResponsiveness_def Let_def)
next
  show "(checkCoherence eng (r\<lparr>repo_platform := p\<rparr>) = Errored) =
        (checkCoherence eng r = Errored)"
    by (simp add: checkCoherence_def Let_def split: option.splits)
qed

lemma example_platform_values:
  "calculateFeedbackResponsiveness example_platform = \<lparr>score = 1, factors = [1, 1, 1, 1]\<rparr>
   \<and> open_issues_fetch_fails (example_platform\<lparr>pl_openIssues := Failed\<rparr>)
   \<and> open_issues_fetch_fails
        (example_platform\<lparr>pl_openIssues := Fetched [\<lparr>oi_number = 1, oi_comments = Failed\<rparr>]\<rparr>)
   \<and> closed_issues_fetch_fails (example_platform\<lparr>pl_closedIssues := Failed\<rparr>)
   \<and> pulls_fetch_fails (example_platform\<lparr>pl_closedPulls := Failed\<rparr>)
   \<and> calculateFeedbackResponsiveness (example_platform\<lparr>pl_openIssues := Failed\<rparr>) =
        \<lparr>score = 9 / 10, factors = [1 / 2, 1, 1, 1]\<rparr>
   \<and> calculateFeedbackResponsiveness (example_platform\<lparr>pl_closedIssues := Failed\<rparr>) =
        \<lparr>score = 17 / 20, factors = [1, 1 / 2, 1, 1]\<rparr>
   \<and> calculateFeedbackResponsiveness (example_platform\<lparr>pl_closedPulls := Failed\<rparr>) =
        \<lparr>score = 17 / 20, factors = [1, 1, 1 / 2, 1]\<rparr>"
  by code_simp


theorem feedback_fetch_failure_is_neutral_witness:
  "open_issues_fetch_fails (example_platform\<lparr>pl_openIssues := Failed\<rparr>)
   \<and> open_issues_fetch_fails
        (example_platform\<lparr>pl_openIssues := Fetched [\<lparr>oi_number = 1, oi_comments = Failed\<rparr>]\<rparr>)
   \<and> closed_issues_fetch_fails (example_platform\<lparr>pl_closedIssues := Failed\<rparr>)
   \<and> pulls_fetch_fails (example_platform\<lparr>pl_closedPulls := Failed\<rparr>)
   \<and> oi_score (analyzeOpenIssues ''ann'' Failed) = 0.5
   \<and> oi_score (analyzeOpenIssues ''ann'' (Fetched [\<lparr>oi_number = 1, oi_comments = Failed\<rparr>])) = 0.5
   \<and> ir_score (analyzeIssueResolution Failed) = 0.5
   \<and> pr_score (analyzePRReviews Failed) = 0.5
   \<and> score (calculateFeedbackResponsiveness example_platform) = 1
   \<and> score (calculateFeedbackResponsiveness (example_platform\<lparr>pl_openIssues := Failed\<rparr>)) = 9 / 10
   \<and> score (calculateFeedbackResponsiveness (example_platform\<lparr>pl_closedIssues := Failed\<rparr>)) = 17 / 20
   \<and> score (calculateFeedbackResponsiveness (example_platform\<lparr>pl_closedPulls := Failed\<rparr>)) = 17 / 20"
  using example_platform_values
    feedback_fetch_failure_is_neutral [of "example_platform\<lparr>pl_openIssues := Failed\<rparr>"]
    feedback_fetch_failure_is_neutral
      [of "example_platform\<lparr>pl_openIssues := Fetched [\<lparr>oi_number = 1, oi_comments = Failed\<rparr>]\<rparr>"]
    feedback_fetch_failure_is_neutral [of "example_platform\<lparr>pl_closedIssues := Failed\<rparr>"]
    feedback_fetch_failure_is_neutral [of "example_platform\<lparr>pl_closedPulls := Failed\<rparr>"]
  by (simp add: example_platform_def)

section \<open>Properties of the overall coherence (coherence-check.js)\<close>


lemma js_pow_weight_one: "0 \<le> x \<Longrightarrow> js_pow (Fin x) (Fin 1) = Fin x"
  by (simp add: js_pow_def)

lemma js_mul_nonneg: "0 \<le> a \<Longrightarrow> 0 \<le> b \<Longrightarrow> js_mul (Fin a) (Fin b) = Fin (a * b)"
  by (auto simp: js_mul_def)

lemma quarter_not_integer: "(1 / 4 :: real) \<notin> \<int>"
proof
  assume "(1 / 4 :: real) \<in> \<int>"
  then obtain k :: int where "(1 / 4 :: real) = of_int k" by (auto elim: Ints_cases)
  then have "(1 :: real) = of_int (4 * k)" by simp
  then have "(1 :: int) = 4 * k" using of_int_eq_iff [of 1 "4 * k", where ?'a = real] by simp
  then show False by presburger
qed

lemma js_pow_quarter: "0 \<le> p \<Longrightarrow> js_pow (Fin p) (Fin (1 / 4)) = Fin (root 4 p)"
proof (cases "p = 0")
  case True
  then show ?thesis by (simp add: js_pow_def)
next
  case False
  assume "0 \<le> p"
  with False have "0 < p" by simp
  then have "root 4 p = p powr (1 / 4)" using root_powr_inverse [of 4 p] by simp
  then show ?thesis using \<open>0 < p\<close> by (simp add: js_pow_def)
qed

lemma overall_default_weights:
  assumes "0 \<le> S" "0 \<le> F" "0 \<le> B" "0 \<le> L"
  shows "calculateOverallCoherence config_weights S F B L = Fin (root 4 (S * F * B * L))"
proof -
  have p: "0 \<le> S * F" "0 \<le> S * F * B" "0 \<le> S * F * B * L"
    using assms by simp_all
  have "js_div (Fin 1) (Fin (1 + 1 + 1 + 1)) = Fin (1 / 4)"
    by (simp add: js_div_def)
  then show ?thesis
    using assms p
    by (simp add: calculateOverallCoherence_def config_weights_def Let_def js_pow_weight_one
          js_mul_nonneg js_pow_quarter)
qed

text \<open>
  Claim C1.  With the default weights (all 1) and the four sub-scores in \<open>[0, 1]\<close>,
  \<open>calculateOverallCoherence\<close> returns the geometric mean, the fourth root of the product
  \<open>S * F * B * L\<close> (numbers are real numbers here, without rounding); the result lies in
  \<open>[0, 1]\<close> and is 0 as soon as one of the four sub-scores is 0.
\<close>

theorem overall_coherence_geometric_mean:
  assumes "0 \<le> S" "S \<le> 1" "0 \<le> F" "F \<le> 1" "0 \<le> B" "B \<le> 1" "0 \<le> L" "L \<le> 1"
  shows "calculateOverallCoherence config_weights S F B L = Fin (root 4 (S * F * B * L))
    \<and> 0 \<le> root 4 (S * F * B * L) \<and> root 4 (S * F * B * L) \<le> 1
    \<and> (S = 0 \<or> F = 0 \<or> B = 0 \<or> L = 0 \<longrightarrow>
         calculateOverallCoherence config_weights S F B L = Fin 0)"
proof -
  have eq: "calculateOverallCoherence config_weights S F B L = Fin (root 4 (S * F * B * L))"
    using assms by (simp add: overall_default_weights)
  have nonneg: "0 \<le> S * F * B * L" using assms by simp
  have "S * F \<le> 1" using assms by (simp add: mult_le_one)
  then have "S * F * B \<le> 1" using assms by (simp add: mult_le_one)
  then have le1: "S * F * B * L \<le> 1" using assms by (simp add: mult_le_one)
  have "root 4 (S * F * B * L) \<le> root 4 1"
    using le1 by (simp only: real_root_le_iff [of 4] zero_less_numeral)
  then have r1: "root 4 (S * F * B * L) \<le> 1" by simp
  have r0: "0 \<le> root 4 (S * F * B * L)" using nonneg by simp
  have z: "root 4 (S * F * B * L) = 0" if "S = 0 \<or> F = 0 \<or> B = 0 \<or> L = 0"
    using that by auto
  show ?thesis using eq r0 r1 z by simp
qed

theorem overall_coherence_geometric_mean_witness:
  "(0::real) \<le> 1 / 2 \<and> (1 / 2 :: real) \<le> 1 \<and> (0::real) \<le> 0
   \<and> calculateOverallCoherence config_weights (1 / 2) (1 / 2) (1 / 2) (1 / 2) = Fin (1 / 2)
   \<and> calculateOverallCoherence config_weights (1 / 2) 0 (1 / 2) 1 = Fin 0"
proof -
  have "(1 / 2 :: real) * (1 / 2) * (1 / 2) * (1 / 2) = (1 / 2) ^ 4" by (simp add: power4_eq_xxxx)
  then have "root 4 ((1 / 2 :: real) * (1 / 2) * (1 / 2) * (1 / 2)) = 1 / 2"
    by (simp only: real_root_power_cancel [of 4 "1 / 2"])
  then show ?thesis
    using overall_coherence_geometric_mean [of "1 / 2" "1 / 2" "1 / 2" "1 / 2"]
      overall_coherence_geometric_mean [of "1 / 2" 0 "1 / 2" 1]
    by simp
qed

section \<open>The run on an empty repository (coherence-check.js)\<close>


lemma empty_signal:
  "calculateSignalAlignment []
     \<lparr>dataFiles = 0, hasDataReadme = False, codeFiles = 0, resultFiles = 0\<rparr> =
   \<lparr>score = 1 / 2, factors = [0, 1, 1 / 2, 1 / 2]\<rparr>"
  by code_simp

lemma empty_feedback:
  "calculateFeedbackResponsiveness
     \<lparr>pl_owner = ''recursive-distill'', pl_openIssues = Fetched [], pl_closedIssues = Fetched [],
      pl_closedPulls = Fetched [], pl_gitlog = Failed\<rparr> =
   \<lparr>score = 9 / 10, factors = [1, 1, 1, 1 / 2]\<rparr>
   \<and> calculateFeedbackResponsiveness
     \<lparr>pl_owner = ''recursive-distill'', pl_openIssues = Fetched [], pl_closedIssues = Fetched [],
      pl_closedPulls = Fetched [], pl_gitlog = Fetched []\<rparr> =
   \<lparr>score = 4 / 5, factors = [1, 1, 1, 0]\<rparr>"
  by code_simp

lemma empty_bounded:
  "calculateBoundedIntegrity eng [] =
     Some \<lparr>score = 59 / 100, factors = [3 / 10, 1 / 2, 17 / 20, 9 / 10]\<rparr>"
  by (simp add: calculateBoundedIntegrity_def analyzeScopeIntegrity_def analyzeTopicDrift_def
        evaluateTermConsistency_def analyzeMethodBoundaries_def unique_def Let_def)

lemma elastic_value:
  "calculateElasticTolerance = \<lparr>score = 63 / 80, factors = [4 / 5, 7 / 10, 4 / 5, 17 / 20]\<rparr>"
  by (simp add: calculateElasticTolerance_def analyzeContradictions_def
        analyzeMultiplePerspectives_def evaluateUncertaintyRepresentation_def
        analyzeLimitationAcknowledgment_def Let_def)


lemma empty_recommendations:
  "generateRecommendations \<lparr>score = 1 / 2, factors = [0, 1, 1 / 2, 1 / 2]\<rparr>
     \<lparr>score = 9 / 10, factors = [1, 1, 1, 1 / 2]\<rparr>
     \<lparr>score = 59 / 100, factors = [3 / 10, 1 / 2, 17 / 20, 9 / 10]\<rparr>
     \<lparr>score = 63 / 80, factors = [4 / 5, 7 / 10, 4 / 5, 17 / 20]\<rparr>
   = empty_repository_recommendations
   \<and> generateRecommendations \<lparr>score = 1 / 2, factors = [0, 1, 1 / 2, 1 / 2]\<rparr>
     \<lparr>score = 4 / 5, factors = [1, 1, 1, 0]\<rparr>
     \<lparr>score = 59 / 100, factors = [3 / 10, 1 / 2, 17 / 20, 9 / 10]\<rparr>
     \<lparr>score = 63 / 80, factors = [4 / 5, 7 / 10, 4 / 5, 17 / 20]\<rparr>
   = empty_repository_recommendations"
  by (simp add: generateRecommendations_def recommend_def config_thresholds_def
        empty_repository_recommendations_def)

lemma root4_below:
  assumes "0 \<le> x" "x < y ^ 4" "0 \<le> y"
  shows "root 4 x < y"
proof -
  have "root 4 x < root 4 (y ^ 4)"
    using assms(2) by (simp only: real_root_less_iff [of 4] zero_less_numeral)
  moreover have "root 4 (y ^ 4) = y" using assms(3) by (simp add: real_root_power_cancel)
  ultimately show ?thesis by simp
qed

lemma empty_overall_below:
  "root 4 (1 / 2 * (9 / 10) * (59 / 100) * (63 / 80)) < 7 / 10"
  "root 4 (1 / 2 * (4 / 5) * (59 / 100) * (63 / 80)) < 7 / 10"
  by (rule root4_below; simp add: power4_eq_xxxx)+

lemma empty_repository_outcome:
  "checkCoherence eng (empty_repository Failed) =
     Completed
       \<lparr>overallScore = Fin (root 4 (1 / 2 * (9 / 10) * (59 / 100) * (63 / 80))),
        c_signalAlignment = 1 / 2, c_feedbackResponsiveness = 9 / 10,
        c_boundedIntegrity = 59 / 100, c_elasticTolerance = 63 / 80,
        recommendations = empty_repository_recommendations, recursiveDepth = 1\<rparr> 1"
  "checkCoherence eng (empty_repository (Fetched [])) =
     Completed
       \<lparr>overallScore = Fin (root 4 (1 / 2 * (4 / 5) * (59 / 100) * (63 / 80))),
        c_signalAlignment = 1 / 2, c_feedbackResponsiveness = 4 / 5,
        c_boundedIntegrity = 59 / 100, c_elasticTolerance = 63 / 80,
        recommendations = empty_repository_recommendations, recursiveDepth = 1\<rparr> 1"
proof -
  have o1: "calculateOverallCoherence config_weights (1 / 2) (9 / 10) (59 / 100) (63 / 80) =
            Fin (root 4 (1 / 2 * (9 / 10) * (59 / 100) * (63 / 80)))"
    by (rule overall_default_weights) simp_all
  have o2: "calculateOverallCoherence config_weights (1 / 2) (4 / 5) (59 / 100) (63 / 80) =
            Fin (root 4 (1 / 2 * (4 / 5) * (59 / 100) * (63 / 80)))"
    by (rule overall_default_weights) simp_all
  have t: "t_overall config_thresholds = 7 / 10" by (simp add: config_thresholds_def)
  show "checkCoherence eng (empty_repository Failed) =
     Completed
       \<lparr>overallScore = Fin (root 4 (1 / 2 * (9 / 10) * (59 / 100) * (63 / 80))),
        c_signalAlignment = 1 / 2, c_feedbackResponsiveness = 9 / 10,
        c_boundedIntegrity = 59 / 100, c_elasticTolerance = 63 / 80,
        recommendations = empty_repository_recommendations, recursiveDepth = 1\<rparr> 1"
    unfolding checkCoherence_def empty_repository_def
    using empty_overall_below(1)
    by (simp add: empty_signal empty_feedback empty_bounded elastic_value o1 t
          empty_recommendations determineRecursiveDepth_def Let_def)
  show "checkCoherence eng (empty_repository (Fetched [])) =
     Completed
       \<lparr>overallScore = Fin (root 4 (1 / 2 * (4 / 5) * (59 / 100) * (63 / 80))),
        c_signalAlignment = 1 / 2, c_feedbackResponsiveness = 4 / 5,
        c_boundedIntegrity = 59 / 100, c_elasticTolerance = 63 / 80,
        recommendations = empty_repository_recommendations, recursiveDepth = 1\<rparr> 1"
    unfolding checkCoherence_def empty_repository_def
    using empty_overall_below(2)
    by (simp add: empty_signal empty_feedback empty_bounded elastic_value o2 t
          empty_recommendations determineRecursiveDepth_def Let_def)
qed

lemma empty_repository_components:
  "calculateSignalAlignment (repo_articles (empty_repository gitlog))
     (repo_files (empty_repository gitlog)) =
     \<lparr>score = 1 / 2, factors = [0, 1, 1 / 2, 1 / 2]\<rparr>"
  "calculateFeedbackResponsiveness (repo_platform (empty_repository Failed)) =
     \<lparr>score = 9 / 10, factors = [1, 1, 1, 1 / 2]\<rparr>"
  "calculateFeedbackResponsiveness (repo_platform (empty_repository (Fetched []))) =
     \<lparr>score = 4 / 5, factors = [1, 1, 1, 0]\<rparr>"
  "calculateBoundedIntegrity eng (repo_articles (empty_repository gitlog)) =
     Some \<lparr>score = 59 / 100, factors = [3 / 10, 1 / 2, 17 / 20, 9 / 10]\<rparr>"
  by (simp_all add: empty_repository_def empty_signal empty_feedback empty_bounded)

text \<open>
  Claim C7, as the code has it.  On the empty repository the run does not end in the
  \<open>catch\<close>: it completes and writes its report, whatever the regular-expression engine and the
  tokenizer are.  The four components are not at the neutral score 0.5; each has the value its
  analyses give without data: signal alignment 0.5 (citation score 0, claims score 1, data and
  code scores 0.5), feedback responsiveness 0.9 (the three platform factors are 1, since a rate
  over an empty list is 1, and the history factor is 0.5 because \<open>git log\<close> fails; 0.8 if it
  prints nothing), bounded integrity 0.59 (scope 0.3, drift 0.5, the placeholders 0.85 and 0.9)
  and elastic tolerance 0.7875 (placeholders).  The overall score is the geometric mean of
  these four; it is below the threshold 0.7 of the check, so the run exits with code 1, and
  below the publication threshold 0.8, so publication fails.
\<close>

theorem empty_repository_run:
  "checkCoherence eng (empty_repository Failed) =
     Completed
       \<lparr>overallScore = Fin (root 4 (1 / 2 * (9 / 10) * (59 / 100) * (63 / 80))),
        c_signalAlignment = 1 / 2, c_feedbackResponsiveness = 9 / 10,
        c_boundedIntegrity = 59 / 100, c_elasticTolerance = 63 / 80,
        recommendations = empty_repository_recommendations, recursiveDepth = 1\<rparr> 1
   \<and> checkCoherence eng (empty_repository (Fetched [])) =
     Completed
       \<lparr>overallScore = Fin (root 4 (1 / 2 * (4 / 5) * (59 / 100) * (63 / 80))),
        c_signalAlignment = 1 / 2, c_feedbackResponsiveness = 4 / 5,
        c_boundedIntegrity = 59 / 100, c_elasticTolerance = 63 / 80,
        recommendations = empty_repository_recommendations, recursiveDepth = 1\<rparr> 1
   \<and> root 4 (1 / 2 * (9 / 10) * (59 / 100) * (63 / 80)) < t_overall config_thresholds
   \<and> root 4 (1 / 2 * (4 / 5) * (59 / 100) * (63 / 80)) < t_overall config_thresholds
   \<and> t_overall config_thresholds < publication_threshold
   \<and> \<not> publication_passes (checkCoherence eng (empty_repository Failed))
   \<and> \<not> publication_passes (checkCoherence eng (empty_repository (Fetched [])))
   \<and> calculateSignalAlignment (repo_articles (empty_repository Failed))
        (repo_files (empty_repository Failed)) =
       \<lparr>score = 1 / 2, factors = [0, 1, 1 / 2, 1 / 2]\<rparr>
   \<and> calculateFeedbackResponsiveness (repo_platform (empty_repository Failed)) =
       \<lparr>score = 9 / 10, factors = [1, 1, 1, 1 / 2]\<rparr>
   \<and> calculateFeedbackResponsiveness (repo_platform (empty_repository (Fetched []))) =
       \<lparr>score = 4 / 5, factors = [1, 1, 1, 0]\<rparr>
   \<and> calculateBoundedIntegrity eng (repo_articles (empty_repository Failed)) =
       Some \<lparr>score = 59 / 100, factors = [3 / 10, 1 / 2, 17 / 20, 9 / 10]\<rparr>
   \<and> calculateElasticTolerance =
       \<lparr>score = 63 / 80, factors = [4 / 5, 7 / 10, 4 / 5, 17 / 20]\<rparr>"
proof -
  have t: "t_overall config_thresholds = 7 / 10" by (simp add: config_thresholds_def)
  have p: "\<not> publication_passes (checkCoherence eng (empty_repository Failed))"
          "\<not> publication_passes (checkCoherence eng (empty_repository (Fetched [])))"
    unfolding empty_repository_outcome by (simp_all add: publication_passes_def)
  have b: "root 4 (1 / 2 * (9 / 10) * (59 / 100) * (63 / 80)) < t_overall config_thresholds"
          "root 4 (1 / 2 * (4 / 5) * (59 / 100) * (63 / 80)) < t_overall config_thresholds"
          "t_overall config_thresholds < publication_threshold"
    unfolding t using empty_overall_below by (simp_all add: publication_threshold_def)
  show ?thesis
    using empty_repository_outcome [of eng] p b empty_repository_components(1) [of Failed]
      empty_repository_components(2,3) empty_repository_components(4) [of eng Failed]
      elastic_value
    by blast
qed

text \<open>
  Claim C7 as it is stated fails on the empty repository: the run completes, but its components
  are not all at the neutral score 0.5 (feedback responsiveness is 0.9 or 0.8, bounded
  integrity 0.59, elastic tolerance 0.7875).
\<close>

theorem empty_repository_components_not_neutral:
  "\<not> components_neutral (checkCoherence example_engine (empty_repository Failed))
   \<and> \<not> components_neutral (checkCoherence example_engine (empty_repository (Fetched [])))
   \<and> checkCoherence example_engine (empty_repository Failed) \<noteq> Errored
   \<and> calculateFeedbackResponsiveness (repo_platform (empty_repository Failed)) =
       \<lparr>score = 9 / 10, factors = [1, 1, 1, 1 / 2]\<rparr>
   \<and> (9 / 10 :: real) \<noteq> neutral_score"
  unfolding empty_repository_outcome empty_repository_components
  by (simp add: components_neutral_def neutral_score_def)

end
